theory Spec2Isabelle
  imports Main
begin

section \<open>Data model\<close>

text \<open>
  The file \<^verbatim>\<open>internal/util/env.go\<close> resolves well-known paths below the root of the
  source tree and builds the environment of a build command. Its functions read the
  process environment, the file system, the manifest and the configuration file; the
  embedding passes everything they read as one value of type \<open>world\<close> and returns
  errors as values (\<open>Inl\<close> the error, \<open>Inr\<close> the result).
\<close>

text \<open>
  Modelled from the spec: the type \<^verbatim>\<open>Platform\<close> is declared outside \<^verbatim>\<open>env.go\<close>; the code
  reads its fields \<^verbatim>\<open>Arch\<close>, \<^verbatim>\<open>OS\<close> and \<^verbatim>\<open>SubArch\<close>, all strings.
\<close>

record Platform =
  Arch :: string
  OS :: string
  SubArch :: string

text \<open>
  Modelled from the spec: the manifest types \<^verbatim>\<open>Tool\<close> and \<^verbatim>\<open>Project\<close> are declared
  outside \<^verbatim>\<open>env.go\<close>; the code reads \<^verbatim>\<open>tool.Name\<close>, \<^verbatim>\<open>tool.Project\<close>, \<^verbatim>\<open>tool.Data\<close> and
  \<^verbatim>\<open>project.Path\<close>.
\<close>

record Tool =
  Name :: string
  Data :: string
  Project :: string

record Project =
  Path :: string

text \<open>
  Modelled from the spec: the type \<^verbatim>\<open>Config\<close> is declared outside \<^verbatim>\<open>env.go\<close>; the code
  calls its accessors \<^verbatim>\<open>GoWorkspaces()\<close> and \<^verbatim>\<open>VDLWorkspaces()\<close>, each a list of
  root-relative directories.
\<close>

record Config =
  GoWorkspaces :: "string list"
  VDLWorkspaces :: "string list"

text \<open>
  One constructor for each place where \<^verbatim>\<open>env.go\<close> makes an error. The Go errors are
  messages built by \<^verbatim>\<open>fmt.Errorf\<close>; a constructor carries the operand of the message
  that the model represents (a path, a name, the content read), not the text of the
  operating system's error.
  \<^item> \<open>NotSetErr\<close>: \<^verbatim>\<open>fmt.Errorf("%v is not set", rootEnv)\<close> in \<^verbatim>\<open>V23Root\<close>;
  \<^item> \<open>EvalSymlinksErr\<close>: \<^verbatim>\<open>fmt.Errorf("EvalSymlinks(%v) failed: %v", root)\<close> in \<^verbatim>\<open>V23Root\<close>;
  \<^item> \<open>ManifestStatErr\<close>: \<^verbatim>\<open>fmt.Errorf("Stat(%v) failed: %v", err)\<close> in
    \<^verbatim>\<open>ResolveManifestPath\<close>, whose only operand is the operating system's error;
  \<^item> \<open>StatErr\<close>: \<^verbatim>\<open>fmt.Errorf("Stat(%v) failed: %v", dir, err)\<close> in \<^verbatim>\<open>setSyncbaseCgoEnv\<close>;
  \<^item> \<open>ToolNotFoundErr\<close>, \<open>ProjectNotFoundErr\<close>: the two errors of \<^verbatim>\<open>DataDirPath\<close>;
  \<^item> \<open>ReadFileErr\<close>, \<open>UnmarshalErr\<close>: the two errors of \<^verbatim>\<open>LoadConfig\<close>;
  \<^item> \<open>UnsupportedPlatformErr\<close>: \<^verbatim>\<open>UnsupportedPlatformErr{platform}\<close> in
    \<^verbatim>\<open>VanadiumEnvironment\<close>.
\<close>

datatype error =
    NotSetErr string
  | EvalSymlinksErr string
  | ManifestStatErr
  | StatErr string
  | ToolNotFoundErr string
  | ProjectNotFoundErr string
  | ReadFileErr string
  | UnmarshalErr string
  | UnsupportedPlatformErr Platform

text \<open>
  The classes of errors that the specification names (its section 7). The Go code has
  no error types apart from \<^verbatim>\<open>UnsupportedPlatformErr\<close>; \<open>class_of\<close> gives each error
  of \<^verbatim>\<open>env.go\<close> the class the specification describes by its cause: a missing input,
  a failed file-system operation, content that does not parse, a name absent from the
  manifest, a platform outside the supported set.
\<close>

datatype error_class =
  ConfigError | IOError | ParseError | NotFoundError | UnsupportedPlatformError

fun class_of :: "error \<Rightarrow> error_class" where
  "class_of (NotSetErr v) = ConfigError"
| "class_of (EvalSymlinksErr p) = IOError"
| "class_of ManifestStatErr = IOError"
| "class_of (StatErr p) = IOError"
| "class_of (ToolNotFoundErr n) = NotFoundError"
| "class_of (ProjectNotFoundErr n) = NotFoundError"
| "class_of (ReadFileErr p) = IOError"
| "class_of (UnmarshalErr b) = ParseError"
| "class_of (UnsupportedPlatformErr p) = UnsupportedPlatformError"

text \<open>
  The three outcomes of \<^verbatim>\<open>os.Stat\<close> that the code tells apart: no error, an error for
  which \<^verbatim>\<open>os.IsNotExist\<close> holds, any other error.
\<close>

datatype stat_result = StatOK | StatNotExist | StatOtherErr

text \<open>
  Everything the code reads from outside:
  \<^item> \<open>environ\<close>: the environment of the process (\<^verbatim>\<open>os.Getenv\<close>, \<^verbatim>\<open>os.Environ\<close>);
  \<^item> \<open>EvalSymlinks\<close>: \<^verbatim>\<open>filepath.EvalSymlinks\<close> on the file system, \<open>None\<close> its error;
  \<^item> \<open>Stat\<close>: \<^verbatim>\<open>os.Stat\<close> on the file system;
  \<^item> \<open>ReadFile\<close>: \<^verbatim>\<open>ioutil.ReadFile\<close>, \<open>None\<close> its error;
  \<^item> \<open>Unmarshal\<close>: \<^verbatim>\<open>json.Unmarshal\<close> into a \<^verbatim>\<open>Config\<close>, \<open>None\<close> its error; the JSON
    decoder of the Go library is taken as a parameter;
  \<^item> \<open>readManifest\<close>: the result of \<^verbatim>\<open>readManifest(ctx, false)\<close>, a function of the
    package that lies outside \<^verbatim>\<open>env.go\<close>: an error, or the projects and the tools of
    the manifest by name;
  \<^item> \<open>GOARCH\<close>, \<open>GOOS\<close>: \<^verbatim>\<open>runtime.GOARCH\<close> and \<^verbatim>\<open>runtime.GOOS\<close>, the running machine;
  \<^item> \<open>tool_Name\<close>: the package variable \<^verbatim>\<open>tool.Name\<close>, the name of the running tool.
\<close>

record world =
  environ :: "string \<rightharpoonup> string"
  EvalSymlinks :: "string \<Rightarrow> string option"
  Stat :: "string \<Rightarrow> stat_result"
  ReadFile :: "string \<Rightarrow> string option"
  Unmarshal :: "string \<Rightarrow> Config option"
  readManifest :: "error + ((string \<rightharpoonup> Project) \<times> (string \<rightharpoonup> Tool))"
  GOARCH :: string
  GOOS :: string
  tool_Name :: string

section \<open>Functions of the Go library\<close>

text \<open>\<^verbatim>\<open>strings.Split(s, sep)\<close> for a separator of one character: \<open>n\<close> separators give
  \<open>n + 1\<close> tokens, so the empty string gives one empty token.\<close>

fun Split :: "char \<Rightarrow> string \<Rightarrow> string list" where
  "Split c [] = [[]]"
| "Split c (x # xs) =
     (if x = c then [] # Split c xs
      else (case Split c xs of [] \<Rightarrow> [[x]] | t # ts \<Rightarrow> (x # t) # ts))"

text \<open>\<^verbatim>\<open>strings.Join(tokens, sep)\<close> for a separator of one character.\<close>

fun Join :: "char \<Rightarrow> string list \<Rightarrow> string" where
  "Join c [] = []"
| "Join c [t] = t"
| "Join c (t # u # ts) = t @ c # Join c (u # ts)"

text \<open>\<^verbatim>\<open>strings.TrimPrefix(s, "v")\<close>: one leading \<^verbatim>\<open>v\<close> is removed when there is one.\<close>

fun TrimPrefix_v :: "string \<Rightarrow> string" where
  "TrimPrefix_v [] = []"
| "TrimPrefix_v (x # xs) = (if x = CHR ''v'' then xs else x # xs)"

text \<open>\<^verbatim>\<open>filepath.IsAbs\<close> on Unix: the path starts with a slash.\<close>

fun filepath_IsAbs :: "string \<Rightarrow> bool" where
  "filepath_IsAbs [] = False"
| "filepath_IsAbs (x # xs) = (x = CHR ''/'')"

text \<open>
  \<^verbatim>\<open>filepath.Clean\<close> on Unix, element by element: empty elements and \<^verbatim>\<open>.\<close> are dropped;
  \<^verbatim>\<open>..\<close> removes the element before it when that is a name, is kept at the start of a
  relative path and dropped at the start of a rooted one. \<open>out\<close> is the list of elements
  written so far.
\<close>

definition clean_step :: "bool \<Rightarrow> string list \<Rightarrow> string \<Rightarrow> string list" where
  "clean_step rooted out e =
     (if e = [] \<or> e = ''.'' then out
      else if e = ''..'' then
        (if out \<noteq> [] \<and> last out \<noteq> ''..'' then butlast out
         else if \<not> rooted then out @ [''..'']
         else out)
      else out @ [e])"

definition filepath_Clean :: "string \<Rightarrow> string" where
  "filepath_Clean path =
     (if path = [] then ''.''
      else
        (let rooted = filepath_IsAbs path;
             out = foldl (clean_step rooted) [] (Split (CHR ''/'') path)
         in if rooted then CHR ''/'' # Join (CHR ''/'') out
            else if out = [] then ''.''
            else Join (CHR ''/'') out))"

text \<open>\<^verbatim>\<open>filepath.Join\<close>: the elements from the first non-empty one on, joined by slashes
  and cleaned; the empty string when every element is empty.\<close>

definition filepath_Join :: "string list \<Rightarrow> string" where
  "filepath_Join elem =
     (case dropWhile (\<lambda>e. e = []) elem of
        [] \<Rightarrow> []
      | e # es \<Rightarrow> filepath_Clean (Join (CHR ''/'') (e # es)))"

text \<open>\<^verbatim>\<open>os.Getenv\<close>: the value of the variable, the empty string when it is not set.\<close>

definition Getenv :: "world \<Rightarrow> string \<Rightarrow> string" where
  "Getenv w key = (case environ w key of None \<Rightarrow> [] | Some v \<Rightarrow> v)"

section \<open>The environment snapshot\<close>

text \<open>
  Modelled from the spec: the package \<^verbatim>\<open>envutil\<close> with the type \<^verbatim>\<open>Snapshot\<close> lies outside
  \<^verbatim>\<open>env.go\<close>. The specification describes a snapshot as a mapping from variable names to
  values, made as a copy of the environment of the process; a variable is set
  directly, or read and written as a list of tokens under a separator character:
  reading splits the value on the separator and takes a variable that is not set as
  the empty list, writing joins the tokens with the separator.
\<close>

type_synonym Snapshot = "string \<rightharpoonup> string"

text \<open>Modelled from the spec: \<^verbatim>\<open>envutil.NewSnapshotFromOS\<close>, a copy of the environment of
  the process.\<close>

definition NewSnapshotFromOS :: "world \<Rightarrow> Snapshot" where
  "NewSnapshotFromOS w = environ w"

text \<open>Modelled from the spec: \<^verbatim>\<open>Snapshot.Set\<close>, the direct set of one variable.\<close>

definition Set :: "Snapshot \<Rightarrow> string \<Rightarrow> string \<Rightarrow> Snapshot" where
  "Set env key v = env(key \<mapsto> v)"

text \<open>Modelled from the spec: \<^verbatim>\<open>Snapshot.GetTokens\<close>, the value split on the separator;
  a variable that is not set has no tokens.\<close>

definition GetTokens :: "Snapshot \<Rightarrow> string \<Rightarrow> char \<Rightarrow> string list" where
  "GetTokens env key sep = (case env key of None \<Rightarrow> [] | Some v \<Rightarrow> Split sep v)"

text \<open>Modelled from the spec: \<^verbatim>\<open>Snapshot.SetTokens\<close>, the tokens joined with the
  separator.\<close>

definition SetTokens :: "Snapshot \<Rightarrow> string \<Rightarrow> string list \<Rightarrow> char \<Rightarrow> Snapshot" where
  "SetTokens env key tokens sep = Set env key (Join sep tokens)"

section \<open>The functions of env.go\<close>

definition rootEnv :: string where
  "rootEnv = ''V23_ROOT''"

definition V23Root :: "world \<Rightarrow> error + string" where
  "V23Root w =
     (let root = Getenv w rootEnv in
      if root = [] then Inl (NotSetErr rootEnv)
      else (case EvalSymlinks w root of
              None \<Rightarrow> Inl (EvalSymlinksErr root)
            | Some result \<Rightarrow> Inr result))"

definition LocalManifestFile :: "world \<Rightarrow> error + string" where
  "LocalManifestFile w =
     (case V23Root w of
        Inl err \<Rightarrow> Inl err
      | Inr root \<Rightarrow> Inr (filepath_Join [root, ''.local_manifest'']))"

definition LocalSnapshotDir :: "world \<Rightarrow> error + string" where
  "LocalSnapshotDir w =
     (case V23Root w of
        Inl err \<Rightarrow> Inl err
      | Inr root \<Rightarrow> Inr (filepath_Join [root, ''.snapshot'']))"

definition ManifestDir :: "world \<Rightarrow> error + string" where
  "ManifestDir w =
     (case V23Root w of
        Inl err \<Rightarrow> Inl err
      | Inr root \<Rightarrow> Inr (filepath_Join [root, ''.manifest'', ''v2'']))"

definition ManifestFile :: "world \<Rightarrow> string \<Rightarrow> error + string" where
  "ManifestFile w name =
     (case ManifestDir w of
        Inl err \<Rightarrow> Inl err
      | Inr dir \<Rightarrow> Inr (filepath_Join [dir, name]))"

definition RemoteSnapshotDir :: "world \<Rightarrow> error + string" where
  "RemoteSnapshotDir w =
     (case ManifestDir w of
        Inl err \<Rightarrow> Inl err
      | Inr manifestDir \<Rightarrow> Inr (filepath_Join [manifestDir, ''snapshot'']))"

text \<open>
  \<^verbatim>\<open>ResolveManifestPath\<close> calls itself with the name \<^verbatim>\<open>"default"\<close> when no name is given
  and the local manifest does not exist. The call with a name that is not empty does
  not recurse, which is the termination argument.
\<close>

function ResolveManifestPath :: "world \<Rightarrow> string \<Rightarrow> error + string" where
  "ResolveManifestPath w name =
     (if name \<noteq> [] then
        (if filepath_IsAbs name then Inr name else ManifestFile w name)
      else
        (case LocalManifestFile w of
           Inl err \<Rightarrow> Inl err
         | Inr path \<Rightarrow>
             (case Stat w path of
                StatNotExist \<Rightarrow> ResolveManifestPath w ''default''
              | StatOtherErr \<Rightarrow> Inl ManifestStatErr
              | StatOK \<Rightarrow> Inr path)))"
  by pat_completeness auto

termination
  by (relation "measure (\<lambda>(w, name). if name = [] then 1 else 0)") auto

declare ResolveManifestPath.simps [simp del]

text \<open>
  In \<^verbatim>\<open>DataDirPath\<close> the local variable \<^verbatim>\<open>tool\<close> hides the package \<^verbatim>\<open>tool\<close>: when the
  lookup fails, \<^verbatim>\<open>tool\<close> is the zero value of the map's element type and the message
  is built from its \<^verbatim>\<open>Name\<close>, the empty string.
\<close>

definition zero_Tool :: Tool where
  "zero_Tool = \<lparr>Name = [], Data = [], Project = []\<rparr>"

definition DataDirPath :: "world \<Rightarrow> string \<Rightarrow> error + string" where
  "DataDirPath w toolName =
     (case readManifest w of
        Inl err \<Rightarrow> Inl err
      | Inr (projects, tools) \<Rightarrow>
          (let toolName' = (if toolName = [] then ''v23'' else toolName) in
           case tools toolName' of
             None \<Rightarrow> Inl (ToolNotFoundErr (Name zero_Tool))
           | Some tool \<Rightarrow>
               (let projectName = Project tool in
                case projects projectName of
                  None \<Rightarrow> Inl (ProjectNotFoundErr projectName)
                | Some project \<Rightarrow> Inr (filepath_Join [Path project, Data tool]))))"

definition LoadConfig :: "world \<Rightarrow> error + Config" where
  "LoadConfig w =
     (case DataDirPath w (tool_Name w) of
        Inl err \<Rightarrow> Inl err
      | Inr dataDir \<Rightarrow>
          (let configPath = filepath_Join [dataDir, ''conf.json''] in
           case ReadFile w configPath of
             None \<Rightarrow> Inl (ReadFileErr configPath)
           | Some configBytes \<Rightarrow>
               (case Unmarshal w configBytes of
                  None \<Rightarrow> Inl (UnmarshalErr configBytes)
                | Some config \<Rightarrow> Inr config)))"

definition BuildCopRotationPath :: "world \<Rightarrow> error + string" where
  "BuildCopRotationPath w =
     (case DataDirPath w (tool_Name w) of
        Inl err \<Rightarrow> Inl err
      | Inr dataDir \<Rightarrow> Inr (filepath_Join [dataDir, ''buildcop.xml'']))"

text \<open>The loop of \<^verbatim>\<open>setGoPath\<close> and \<^verbatim>\<open>setVdlPath\<close>: one \<^verbatim>\<open>append\<close> for each workspace.\<close>

fun appendWorkspaces :: "string \<Rightarrow> string list \<Rightarrow> string list \<Rightarrow> string list" where
  "appendWorkspaces root path [] = path"
| "appendWorkspaces root path (workspace # rest) =
     appendWorkspaces root (path @ [filepath_Join [root, workspace]]) rest"

definition setGoPath :: "Snapshot \<Rightarrow> string \<Rightarrow> Config \<Rightarrow> Snapshot" where
  "setGoPath env root config =
     (let gopath = GetTokens env ''GOPATH'' (CHR '':'') in
      SetTokens env ''GOPATH'' (appendWorkspaces root gopath (GoWorkspaces config)) (CHR '':''))"

definition setVdlPath :: "Snapshot \<Rightarrow> string \<Rightarrow> Config \<Rightarrow> Snapshot" where
  "setVdlPath env root config =
     (let vdlpath = GetTokens env ''VDLPATH'' (CHR '':'') in
      SetTokens env ''VDLPATH'' (appendWorkspaces root vdlpath (VDLWorkspaces config)) (CHR '':''))"

definition setNaclEnv :: "Snapshot \<Rightarrow> Platform \<Rightarrow> error + Snapshot" where
  "setNaclEnv env platform =
     Inr (Set (Set env ''GOARCH'' (Arch platform)) ''GOOS'' (OS platform))"

definition setAndroidEnv :: "world \<Rightarrow> Snapshot \<Rightarrow> Platform \<Rightarrow> error + Snapshot" where
  "setAndroidEnv w env platform =
     (case V23Root w of
        Inl err \<Rightarrow> Inl err
      | Inr root \<Rightarrow>
          (let env1 = Set env ''CGO_ENABLED'' ''1'';
               env2 = Set env1 ''GOOS'' (OS platform);
               env3 = Set env2 ''GOARCH'' (Arch platform);
               env4 = Set env3 ''GOARM'' (TrimPrefix_v (SubArch platform));
               path = GetTokens env4 ''PATH'' (CHR '':'');
               path' = [filepath_Join [root, ''environment'', ''android'', ''go'', ''bin'']] @ path
           in Inr (SetTokens env4 ''PATH'' path' (CHR '':''))))"

definition setArmEnv :: "world \<Rightarrow> Snapshot \<Rightarrow> Platform \<Rightarrow> error + Snapshot" where
  "setArmEnv w env platform =
     (case V23Root w of
        Inl err \<Rightarrow> Inl err
      | Inr root \<Rightarrow>
          (let env1 = Set env ''GOARCH'' (Arch platform);
               env2 = Set env1 ''GOARM'' (TrimPrefix_v (SubArch platform));
               env3 = Set env2 ''GOOS'' (OS platform);
               path = GetTokens env3 ''PATH'' (CHR '':'');
               path' = [filepath_Join [root, ''third_party'', ''cout'', ''xgcc'', ''cross_arm''],
                        filepath_Join [root, ''third_party'', ''repos'', ''go_arm'', ''bin'']] @ path
           in Inr (SetTokens env3 ''PATH'' path' (CHR '':''))))"

text \<open>The third parameter of \<^verbatim>\<open>setSyncbaseCgoEnv\<close> is named \<^verbatim>\<open>arch\<close> in the source; the
  caller passes the operating system of the platform.\<close>

definition setSyncbaseCgoEnv :: "world \<Rightarrow> Snapshot \<Rightarrow> string \<Rightarrow> string \<Rightarrow> error + Snapshot" where
  "setSyncbaseCgoEnv w env root arch =
     (let env1 = Set env ''CGO_ENABLED'' ''1'';
          cflags = GetTokens env1 ''CGO_CFLAGS'' (CHR '' '');
          ldflags = GetTokens env1 ''CGO_LDFLAGS'' (CHR '' '');
          dir = filepath_Join [root, ''third_party'', ''cout'', ''leveldb'']
      in case Stat w dir of
           StatOtherErr \<Rightarrow> Inl (StatErr dir)
         | StatNotExist \<Rightarrow>
             Inr (SetTokens (SetTokens env1 ''CGO_CFLAGS'' cflags (CHR '' ''))
                    ''CGO_LDFLAGS'' ldflags (CHR '' ''))
         | StatOK \<Rightarrow>
             (let cflags' = cflags @ [filepath_Join [''-I'' @ dir, ''include'']];
                  ldflags' = ldflags @ [filepath_Join [''-L'' @ dir, ''lib'']];
                  ldflags'' = (if arch = ''linux''
                               then ldflags' @ [''-Wl,-rpath'', filepath_Join [dir, ''lib'']]
                               else ldflags')
              in Inr (SetTokens (SetTokens env1 ''CGO_CFLAGS'' cflags' (CHR '' ''))
                        ''CGO_LDFLAGS'' ldflags'' (CHR '' ''))))"

text \<open>The cases of the \<^verbatim>\<open>switch\<close> of \<^verbatim>\<open>VanadiumEnvironment\<close>, tested in the order of the
  source: the host first.\<close>

definition platformSwitch :: "world \<Rightarrow> Snapshot \<Rightarrow> Platform \<Rightarrow> error + Snapshot" where
  "platformSwitch w env platform =
     (if Arch platform = GOARCH w \<and> OS platform = GOOS w then Inr env
      else if Arch platform = ''arm'' \<and> OS platform = ''linux'' then setArmEnv w env platform
      else if Arch platform = ''arm'' \<and> OS platform = ''android'' then setAndroidEnv w env platform
      else if (Arch platform = ''386'' \<or> Arch platform = ''amd64p32'') \<and> OS platform = ''nacl''
        then setNaclEnv env platform
      else Inl (UnsupportedPlatformErr platform))"

definition VanadiumEnvironment :: "world \<Rightarrow> Platform \<Rightarrow> error + Snapshot" where
  "VanadiumEnvironment w platform =
     (let env = NewSnapshotFromOS w in
      case V23Root w of
        Inl err \<Rightarrow> Inl err
      | Inr root \<Rightarrow>
          (case LoadConfig w of
             Inl err \<Rightarrow> Inl err
           | Inr config \<Rightarrow>
               (let env1 = setGoPath env root config;
                    env2 = setVdlPath env1 root config
                in if OS platform = ''darwin'' \<or> OS platform = ''linux'' then
                     (case setSyncbaseCgoEnv w env2 root (OS platform) of
                        Inl err \<Rightarrow> Inl err
                      | Inr env3 \<Rightarrow> platformSwitch w env3 platform)
                   else platformSwitch w env2 platform)))"

section \<open>The snapshot as an object in a store\<close>

text \<open>
  The functions above pass the snapshot as a value. In the source it is an object
  behind a pointer (\<^verbatim>\<open>*envutil.Snapshot\<close>): \<^verbatim>\<open>VanadiumEnvironment\<close> makes it, the helpers
  change it in place, and the caller gets the pointer or \<^verbatim>\<open>nil\<close>. The store makes the
  objects explicit, so that what a call writes can be stated: the world, with the
  environment of the process in it, and the snapshot objects by address, with the next
  free address. The functions below are the same code over the store; a pointer is an
  address, an error that may be \<^verbatim>\<open>nil\<close> is an \<open>error option\<close>.
\<close>

record store =
  the_world :: world
  next_addr :: nat
  object :: "nat \<Rightarrow> Snapshot"

text \<open>Modelled from the spec: \<^verbatim>\<open>envutil.NewSnapshotFromOS\<close> makes a new object, a copy of
  the environment of the process.\<close>

definition NewSnapshotFromOS_st :: "store \<Rightarrow> nat \<times> store" where
  "NewSnapshotFromOS_st s =
     (next_addr s,
      s\<lparr>next_addr := Suc (next_addr s),
        object := (object s)(next_addr s := NewSnapshotFromOS (the_world s))\<rparr>)"

text \<open>Modelled from the spec: \<^verbatim>\<open>Snapshot.Set\<close> writes to the object of the pointer.\<close>

definition Set_st :: "nat \<Rightarrow> string \<Rightarrow> string \<Rightarrow> store \<Rightarrow> store" where
  "Set_st env key v s = s\<lparr>object := (object s)(env := Set (object s env) key v)\<rparr>"

text \<open>Modelled from the spec: \<^verbatim>\<open>Snapshot.GetTokens\<close> reads the object of the pointer.\<close>

definition GetTokens_st :: "store \<Rightarrow> nat \<Rightarrow> string \<Rightarrow> char \<Rightarrow> string list" where
  "GetTokens_st s env key sep = GetTokens (object s env) key sep"

text \<open>Modelled from the spec: \<^verbatim>\<open>Snapshot.SetTokens\<close> writes to the object of the pointer.\<close>

definition SetTokens_st :: "nat \<Rightarrow> string \<Rightarrow> string list \<Rightarrow> char \<Rightarrow> store \<Rightarrow> store" where
  "SetTokens_st env key tokens sep s =
     s\<lparr>object := (object s)(env := SetTokens (object s env) key tokens sep)\<rparr>"

definition setGoPath_st :: "nat \<Rightarrow> string \<Rightarrow> Config \<Rightarrow> store \<Rightarrow> store" where
  "setGoPath_st env root config s =
     (let gopath = GetTokens_st s env ''GOPATH'' (CHR '':'') in
      SetTokens_st env ''GOPATH'' (appendWorkspaces root gopath (GoWorkspaces config))
        (CHR '':'') s)"

definition setVdlPath_st :: "nat \<Rightarrow> string \<Rightarrow> Config \<Rightarrow> store \<Rightarrow> store" where
  "setVdlPath_st env root config s =
     (let vdlpath = GetTokens_st s env ''VDLPATH'' (CHR '':'') in
      SetTokens_st env ''VDLPATH'' (appendWorkspaces root vdlpath (VDLWorkspaces config))
        (CHR '':'') s)"

definition setNaclEnv_st :: "nat \<Rightarrow> Platform \<Rightarrow> store \<Rightarrow> error option \<times> store" where
  "setNaclEnv_st env platform s =
     (let s1 = Set_st env ''GOARCH'' (Arch platform) s;
          s2 = Set_st env ''GOOS'' (OS platform) s1
      in (None, s2))"

definition setAndroidEnv_st :: "nat \<Rightarrow> Platform \<Rightarrow> store \<Rightarrow> error option \<times> store" where
  "setAndroidEnv_st env platform s =
     (case V23Root (the_world s) of
        Inl err \<Rightarrow> (Some err, s)
      | Inr root \<Rightarrow>
          (let s1 = Set_st env ''CGO_ENABLED'' ''1'' s;
               s2 = Set_st env ''GOOS'' (OS platform) s1;
               s3 = Set_st env ''GOARCH'' (Arch platform) s2;
               s4 = Set_st env ''GOARM'' (TrimPrefix_v (SubArch platform)) s3;
               path = GetTokens_st s4 env ''PATH'' (CHR '':'');
               path' = [filepath_Join [root, ''environment'', ''android'', ''go'', ''bin'']] @ path
           in (None, SetTokens_st env ''PATH'' path' (CHR '':'') s4)))"

definition setArmEnv_st :: "nat \<Rightarrow> Platform \<Rightarrow> store \<Rightarrow> error option \<times> store" where
  "setArmEnv_st env platform s =
     (case V23Root (the_world s) of
        Inl err \<Rightarrow> (Some err, s)
      | Inr root \<Rightarrow>
          (let s1 = Set_st env ''GOARCH'' (Arch platform) s;
               s2 = Set_st env ''GOARM'' (TrimPrefix_v (SubArch platform)) s1;
               s3 = Set_st env ''GOOS'' (OS platform) s2;
               path = GetTokens_st s3 env ''PATH'' (CHR '':'');
               path' = [filepath_Join [root, ''third_party'', ''cout'', ''xgcc'', ''cross_arm''],
                        filepath_Join [root, ''third_party'', ''repos'', ''go_arm'', ''bin'']] @ path
           in (None, SetTokens_st env ''PATH'' path' (CHR '':'') s3)))"

text \<open>\<^verbatim>\<open>setSyncbaseCgoEnv\<close> sets \<^verbatim>\<open>CGO_ENABLED\<close> before it calls \<^verbatim>\<open>Stat\<close>: when it returns the
  error of \<^verbatim>\<open>Stat\<close>, the object has that one variable set.\<close>

definition setSyncbaseCgoEnv_st ::
  "nat \<Rightarrow> string \<Rightarrow> string \<Rightarrow> store \<Rightarrow> error option \<times> store" where
  "setSyncbaseCgoEnv_st env root arch s =
     (let s1 = Set_st env ''CGO_ENABLED'' ''1'' s;
          cflags = GetTokens_st s1 env ''CGO_CFLAGS'' (CHR '' '');
          ldflags = GetTokens_st s1 env ''CGO_LDFLAGS'' (CHR '' '');
          dir = filepath_Join [root, ''third_party'', ''cout'', ''leveldb'']
      in case Stat (the_world s1) dir of
           StatOtherErr \<Rightarrow> (Some (StatErr dir), s1)
         | StatNotExist \<Rightarrow>
             (None, SetTokens_st env ''CGO_LDFLAGS'' ldflags (CHR '' '')
                      (SetTokens_st env ''CGO_CFLAGS'' cflags (CHR '' '') s1))
         | StatOK \<Rightarrow>
             (let cflags' = cflags @ [filepath_Join [''-I'' @ dir, ''include'']];
                  ldflags' = ldflags @ [filepath_Join [''-L'' @ dir, ''lib'']];
                  ldflags'' = (if arch = ''linux''
                               then ldflags' @ [''-Wl,-rpath'', filepath_Join [dir, ''lib'']]
                               else ldflags')
              in (None, SetTokens_st env ''CGO_LDFLAGS'' ldflags'' (CHR '' '')
                          (SetTokens_st env ''CGO_CFLAGS'' cflags' (CHR '' '') s1))))"

definition platformSwitch_st :: "nat \<Rightarrow> Platform \<Rightarrow> store \<Rightarrow> error option \<times> store" where
  "platformSwitch_st env platform s =
     (if Arch platform = GOARCH (the_world s) \<and> OS platform = GOOS (the_world s) then (None, s)
      else if Arch platform = ''arm'' \<and> OS platform = ''linux'' then setArmEnv_st env platform s
      else if Arch platform = ''arm'' \<and> OS platform = ''android''
        then setAndroidEnv_st env platform s
      else if (Arch platform = ''386'' \<or> Arch platform = ''amd64p32'') \<and> OS platform = ''nacl''
        then setNaclEnv_st env platform s
      else (Some (UnsupportedPlatformErr platform), s))"

text \<open>The result is the pointer to the snapshot, or the error with no pointer, and the
  store after the call.\<close>

definition VanadiumEnvironment_st :: "Platform \<Rightarrow> store \<Rightarrow> (error + nat) \<times> store" where
  "VanadiumEnvironment_st platform s =
     (case NewSnapshotFromOS_st s of
        (env, s0) \<Rightarrow>
          (case V23Root (the_world s0) of
             Inl err \<Rightarrow> (Inl err, s0)
           | Inr root \<Rightarrow>
               (case LoadConfig (the_world s0) of
                  Inl err \<Rightarrow> (Inl err, s0)
                | Inr config \<Rightarrow>
                    (let s1 = setGoPath_st env root config s0;
                         s2 = setVdlPath_st env root config s1
                     in case (if OS platform = ''darwin'' \<or> OS platform = ''linux''
                              then setSyncbaseCgoEnv_st env root (OS platform) s2
                              else (None, s2)) of
                          (Some err, s3) \<Rightarrow> (Inl err, s3)
                        | (None, s3) \<Rightarrow>
                            (case platformSwitch_st env platform s3 of
                               (Some err, s4) \<Rightarrow> (Inl err, s4)
                             | (None, s4) \<Rightarrow> (Inr env, s4))))))"

section \<open>Example worlds\<close>

text \<open>
  A machine of architecture \<^verbatim>\<open>amd64\<close> running \<^verbatim>\<open>linux\<close>, with the root \<^verbatim>\<open>/v23\<close>, a
  manifest that has the tool \<^verbatim>\<open>v23\<close> in the project \<^verbatim>\<open>devtools\<close>, a readable
  configuration with one Go workspace and one VDL workspace, and the LevelDB directory
  on disk. The variants below change one thing each.
\<close>

definition example_config :: Config where
  "example_config = \<lparr>GoWorkspaces = [''release/go''], VDLWorkspaces = [''release/vdl'']\<rparr>"

definition example_world :: world where
  "example_world =
     \<lparr>environ = [''V23_ROOT'' \<mapsto> ''/v23'', ''PATH'' \<mapsto> ''/usr/bin:/bin'',
                 ''GOPATH'' \<mapsto> ''/home/go''],
      EvalSymlinks = Some,
      Stat = (\<lambda>p. if p = ''/v23/third_party/cout/leveldb'' then StatOK else StatNotExist),
      ReadFile = (\<lambda>p. if p = ''/v23/devtools/data/conf.json'' then Some ''{}'' else None),
      Unmarshal = (\<lambda>b. if b = ''{}'' then Some example_config else None),
      readManifest =
        Inr ([''devtools'' \<mapsto> \<lparr>Path = ''/v23/devtools''\<rparr>],
             [''v23'' \<mapsto> \<lparr>Name = ''v23'', Data = ''data'', Project = ''devtools''\<rparr>]),
      GOARCH = ''amd64'', GOOS = ''linux'', tool_Name = ''v23''\<rparr>"

definition world_root_unset :: world where
  "world_root_unset = example_world\<lparr>environ := [''PATH'' \<mapsto> ''/usr/bin:/bin'']\<rparr>"

definition world_root_dangling :: world where
  "world_root_dangling = example_world\<lparr>EvalSymlinks := (\<lambda>p. None)\<rparr>"

definition world_config_missing :: world where
  "world_config_missing = example_world\<lparr>ReadFile := (\<lambda>p. None)\<rparr>"

definition world_config_malformed :: world where
  "world_config_malformed = example_world\<lparr>ReadFile := (\<lambda>p. Some ''{'')\<rparr>"

definition world_no_tool :: world where
  "world_no_tool = example_world\<lparr>readManifest := Inr (Map.empty, Map.empty)\<rparr>"

definition world_no_project :: world where
  "world_no_project = example_world\<lparr>readManifest :=
     Inr (Map.empty, [''v23'' \<mapsto> \<lparr>Name = ''v23'', Data = ''data'', Project = ''devtools''\<rparr>])\<rparr>"

definition world_no_leveldb :: world where
  "world_no_leveldb = example_world\<lparr>Stat := (\<lambda>p. StatNotExist)\<rparr>"

definition world_local_manifest :: world where
  "world_local_manifest = example_world\<lparr>Stat := (\<lambda>p. StatOK)\<rparr>"

definition world_arm_host :: world where
  "world_arm_host = example_world\<lparr>GOARCH := ''arm''\<rparr>"

definition world_darwin_host :: world where
  "world_darwin_host = example_world\<lparr>GOOS := ''darwin''\<rparr>"

definition world_leveldb_unreadable :: world where
  "world_leveldb_unreadable = example_world\<lparr>Stat := (\<lambda>p. StatOtherErr)\<rparr>"

definition world_manifest_unreadable :: world where
  "world_manifest_unreadable =
     example_world\<lparr>readManifest := Inl (ReadFileErr ''/v23/.manifest/v2/default'')\<rparr>"

text \<open>A store over a world, with one object made before the call.\<close>

definition example_store :: "world \<Rightarrow> store" where
  "example_store w =
     \<lparr>the_world = w, next_addr = 1,
      object = (\<lambda>a. if a = 0 then [''HOME'' \<mapsto> ''/root''] else Map.empty)\<rparr>"

definition arm_linux_v7 :: Platform where
  "arm_linux_v7 = \<lparr>Arch = ''arm'', OS = ''linux'', SubArch = ''v7''\<rparr>"

definition arm_android_v7 :: Platform where
  "arm_android_v7 = \<lparr>Arch = ''arm'', OS = ''android'', SubArch = ''v7''\<rparr>"

definition amd64_linux :: Platform where
  "amd64_linux = \<lparr>Arch = ''amd64'', OS = ''linux'', SubArch = []\<rparr>"

definition amd64_darwin :: Platform where
  "amd64_darwin = \<lparr>Arch = ''amd64'', OS = ''darwin'', SubArch = []\<rparr>"

definition mips_linux :: Platform where
  "mips_linux = \<lparr>Arch = ''mips'', OS = ''linux'', SubArch = []\<rparr>"

definition mips_plan9 :: Platform where
  "mips_plan9 = \<lparr>Arch = ''mips'', OS = ''plan9'', SubArch = []\<rparr>"

section \<open>Tokens and snapshots\<close>

lemma Split_nonempty: "Split c s \<noteq> []"
  by (induction s) (auto split: list.splits)

lemma Join_Cons: "ts \<noteq> [] \<Longrightarrow> Join c (t # ts) = t @ c # Join c ts"
  by (cases ts) simp_all

text \<open>Splitting a value and joining the tokens gives the value back.\<close>

lemma Join_Split: "Join c (Split c s) = s"
proof (induction s)
  case Nil
  show ?case by simp
next
  case (Cons x s)
  show ?case
  proof (cases "x = c")
    case True
    with Cons show ?thesis by (simp add: Join_Cons Split_nonempty)
  next
    case False
    obtain t ts where "Split c s = t # ts"
      using Split_nonempty [of c s] by (cases "Split c s") auto
    with Cons False show ?thesis by (cases ts) auto
  qed
qed

lemma Split_token: "c \<notin> set t \<Longrightarrow> Split c t = [t]"
  by (induction t) auto

lemma Split_token_sep: "c \<notin> set t \<Longrightarrow> Split c (t @ c # s) = t # Split c s"
  by (induction t) auto

text \<open>Joining tokens and splitting the value gives the tokens back when there is at
  least one token and no token contains the separator.\<close>

lemma Split_Join:
  "ts \<noteq> [] \<Longrightarrow> \<forall>t \<in> set ts. c \<notin> set t \<Longrightarrow> Split c (Join c ts) = ts"
  by (induction c ts rule: Join.induct) (simp_all add: Split_token Split_token_sep)

lemma Split_tokens: "t \<in> set (Split c s) \<Longrightarrow> c \<notin> set t"
proof (induction s arbitrary: t)
  case Nil
  then show ?case by simp
next
  case (Cons x s)
  obtain u us where "Split c s = u # us"
    using Split_nonempty [of c s] by (cases "Split c s") auto
  with Cons show ?case by (auto split: if_splits)
qed

lemma GetTokens_tokens: "t \<in> set (GetTokens env key c) \<Longrightarrow> c \<notin> set t"
  by (auto simp: GetTokens_def Split_tokens split: option.splits)

lemma Set_apply: "Set env key v k = (if k = key then Some v else env k)"
  by (simp add: Set_def)

lemma SetTokens_apply:
  "SetTokens env key tokens sep k = (if k = key then Some (Join sep tokens) else env k)"
  by (simp add: SetTokens_def Set_apply)

lemma GetTokens_cong: "env k = env' k \<Longrightarrow> GetTokens env k sep = GetTokens env' k sep"
  by (simp add: GetTokens_def)

lemma GetTokens_Set_other: "k \<noteq> key \<Longrightarrow> GetTokens (Set env key v) k sep = GetTokens env k sep"
  by (simp add: GetTokens_def Set_apply)

text \<open>Reading back a variable whose value is a joined token list.\<close>

lemma GetTokens_written:
  assumes "env key = Some (Join sep tokens)"
    and "tokens \<noteq> []" and "\<forall>t \<in> set tokens. sep \<notin> set t"
  shows "GetTokens env key sep = tokens"
  using assms by (simp add: GetTokens_def Split_Join)

section \<open>The steps of the construction\<close>

lemma appendWorkspaces_map:
  "appendWorkspaces root path ws = path @ map (\<lambda>workspace. filepath_Join [root, workspace]) ws"
  by (induction ws arbitrary: path) simp_all

lemma setGoPath_apply:
  "setGoPath env root config k =
     (if k = ''GOPATH''
      then Some (Join (CHR '':'') (GetTokens env ''GOPATH'' (CHR '':'') @
             map (\<lambda>workspace. filepath_Join [root, workspace]) (GoWorkspaces config)))
      else env k)"
  by (simp add: setGoPath_def SetTokens_apply appendWorkspaces_map)

lemma setVdlPath_apply:
  "setVdlPath env root config k =
     (if k = ''VDLPATH''
      then Some (Join (CHR '':'') (GetTokens env ''VDLPATH'' (CHR '':'') @
             map (\<lambda>workspace. filepath_Join [root, workspace]) (VDLWorkspaces config)))
      else env k)"
  by (simp add: setVdlPath_def SetTokens_apply appendWorkspaces_map)

text \<open>The snapshot after \<^verbatim>\<open>setGoPath\<close> and \<^verbatim>\<open>setVdlPath\<close>.\<close>

lemma workspaces_env_apply:
  "setVdlPath (setGoPath env root config) root config k =
     (if k = ''VDLPATH''
      then Some (Join (CHR '':'') (GetTokens env ''VDLPATH'' (CHR '':'') @
             map (\<lambda>workspace. filepath_Join [root, workspace]) (VDLWorkspaces config)))
      else if k = ''GOPATH''
      then Some (Join (CHR '':'') (GetTokens env ''GOPATH'' (CHR '':'') @
             map (\<lambda>workspace. filepath_Join [root, workspace]) (GoWorkspaces config)))
      else env k)"
  by (simp add: setVdlPath_apply setGoPath_apply
        GetTokens_cong [of "setGoPath env root config" "''VDLPATH''" env])

lemma workspaces_env_PATH:
  "GetTokens (setVdlPath (setGoPath env root config) root config) ''PATH'' sep =
   GetTokens env ''PATH'' sep"
  by (rule GetTokens_cong) (simp add: workspaces_env_apply)

lemma setSyncbaseCgoEnv_Inr:
  assumes "setSyncbaseCgoEnv w env root arch = Inr env'"
  shows "Stat w (filepath_Join [root, ''third_party'', ''cout'', ''leveldb'']) \<noteq> StatOtherErr"
    and "env' ''CGO_ENABLED'' = Some ''1''"
    and "k \<notin> {''CGO_ENABLED'', ''CGO_CFLAGS'', ''CGO_LDFLAGS''} \<Longrightarrow> env' k = env k"
    and "Stat w (filepath_Join [root, ''third_party'', ''cout'', ''leveldb'']) = StatNotExist \<Longrightarrow>
           env' ''CGO_CFLAGS'' =
             Some (Join (CHR '' '') (GetTokens env ''CGO_CFLAGS'' (CHR '' ''))) \<and>
           env' ''CGO_LDFLAGS'' =
             Some (Join (CHR '' '') (GetTokens env ''CGO_LDFLAGS'' (CHR '' '')))"
    and "Stat w (filepath_Join [root, ''third_party'', ''cout'', ''leveldb'']) = StatOK \<Longrightarrow>
           env' ''CGO_CFLAGS'' = Some (Join (CHR '' '') (GetTokens env ''CGO_CFLAGS'' (CHR '' '') @
              [filepath_Join [''-I'' @ filepath_Join [root, ''third_party'', ''cout'', ''leveldb''],
                 ''include'']])) \<and>
           env' ''CGO_LDFLAGS'' = Some (Join (CHR '' '') (GetTokens env ''CGO_LDFLAGS'' (CHR '' '') @
              [filepath_Join [''-L'' @ filepath_Join [root, ''third_party'', ''cout'', ''leveldb''],
                 ''lib'']] @
              (if arch = ''linux''
               then [''-Wl,-rpath'',
                     filepath_Join [filepath_Join [root, ''third_party'', ''cout'', ''leveldb''],
                       ''lib'']]
               else [])))"
  using assms
  by (auto simp: setSyncbaseCgoEnv_def Let_def SetTokens_apply Set_apply GetTokens_Set_other
           split: stat_result.splits if_splits)

lemma setSyncbaseCgoEnv_Inl:
  "setSyncbaseCgoEnv w env root arch = Inl e \<longleftrightarrow>
     Stat w (filepath_Join [root, ''third_party'', ''cout'', ''leveldb'']) = StatOtherErr \<and>
     e = StatErr (filepath_Join [root, ''third_party'', ''cout'', ''leveldb''])"
  by (auto simp: setSyncbaseCgoEnv_def Let_def split: stat_result.splits)

lemma setArmEnv_apply:
  assumes "V23Root w = Inr root"
  shows "\<exists>env'. setArmEnv w env platform = Inr env' \<and>
     (\<forall>k. env' k =
       (if k = ''PATH'' then Some (Join (CHR '':'')
             ([filepath_Join [root, ''third_party'', ''cout'', ''xgcc'', ''cross_arm''],
               filepath_Join [root, ''third_party'', ''repos'', ''go_arm'', ''bin'']] @
              GetTokens env ''PATH'' (CHR '':'')))
        else if k = ''GOOS'' then Some (OS platform)
        else if k = ''GOARM'' then Some (TrimPrefix_v (SubArch platform))
        else if k = ''GOARCH'' then Some (Arch platform)
        else env k))"
  using assms
  by (simp add: setArmEnv_def Let_def SetTokens_apply Set_apply GetTokens_Set_other)

lemma setAndroidEnv_apply:
  assumes "V23Root w = Inr root"
  shows "\<exists>env'. setAndroidEnv w env platform = Inr env' \<and>
     (\<forall>k. env' k =
       (if k = ''PATH'' then Some (Join (CHR '':'')
             ([filepath_Join [root, ''environment'', ''android'', ''go'', ''bin'']] @
              GetTokens env ''PATH'' (CHR '':'')))
        else if k = ''GOARM'' then Some (TrimPrefix_v (SubArch platform))
        else if k = ''GOARCH'' then Some (Arch platform)
        else if k = ''GOOS'' then Some (OS platform)
        else if k = ''CGO_ENABLED'' then Some ''1''
        else env k))"
  using assms
  by (simp add: setAndroidEnv_def Let_def SetTokens_apply Set_apply GetTokens_Set_other)

lemma platformSwitch_unsupported:
  assumes "\<not> (Arch platform = GOARCH w \<and> OS platform = GOOS w)"
    and "\<not> (Arch platform = ''arm'' \<and> OS platform = ''linux'')"
    and "\<not> (Arch platform = ''arm'' \<and> OS platform = ''android'')"
    and "\<not> (Arch platform = ''386'' \<and> OS platform = ''nacl'')"
    and "\<not> (Arch platform = ''amd64p32'' \<and> OS platform = ''nacl'')"
  shows "platformSwitch w env platform = Inl (UnsupportedPlatformErr platform)"
  using assms by (auto simp: platformSwitch_def)

lemma platformSwitch_host:
  assumes "Arch platform = GOARCH w" and "OS platform = GOOS w"
  shows "platformSwitch w env platform = Inr env"
  using assms by (simp add: platformSwitch_def)

lemma platformSwitch_frame:
  assumes "platformSwitch w env platform = Inr env'"
    and "k \<notin> {''PATH'', ''GOOS'', ''GOARCH'', ''GOARM'', ''CGO_ENABLED''}"
  shows "env' k = env k"
  using assms
  by (auto simp: platformSwitch_def setArmEnv_def setAndroidEnv_def setNaclEnv_def Let_def
        SetTokens_apply Set_apply split: if_splits sum.splits)

lemma VanadiumEnvironment_unfold:
  assumes "V23Root w = Inr root" and "LoadConfig w = Inr config"
  shows "VanadiumEnvironment w platform =
     (if OS platform = ''darwin'' \<or> OS platform = ''linux'' then
        (case setSyncbaseCgoEnv w (setVdlPath (setGoPath (environ w) root config) root config)
                root (OS platform) of
           Inl err \<Rightarrow> Inl err
         | Inr env3 \<Rightarrow> platformSwitch w env3 platform)
      else platformSwitch w (setVdlPath (setGoPath (environ w) root config) root config) platform)"
  using assms by (simp add: VanadiumEnvironment_def NewSnapshotFromOS_def Let_def)

lemma VanadiumEnvironment_Inr_steps:
  assumes "VanadiumEnvironment w platform = Inr env"
  obtains root config where "V23Root w = Inr root" and "LoadConfig w = Inr config"
  using assms by (auto simp: VanadiumEnvironment_def Let_def split: sum.splits)

text \<open>The construction returns a snapshot for every supported platform once the root,
  the configuration and, on \<^verbatim>\<open>darwin\<close> and \<^verbatim>\<open>linux\<close>, the \<^verbatim>\<open>Stat\<close> of the LevelDB directory
  give no error.\<close>

lemma VanadiumEnvironment_succeeds:
  assumes root: "V23Root w = Inr root" and config: "LoadConfig w = Inr config"
    and stat: "OS platform = ''darwin'' \<or> OS platform = ''linux'' \<longrightarrow>
      Stat w (filepath_Join [root, ''third_party'', ''cout'', ''leveldb'']) \<noteq> StatOtherErr"
    and supported: "(Arch platform = GOARCH w \<and> OS platform = GOOS w) \<or>
      (Arch platform = ''arm'' \<and> OS platform = ''linux'') \<or>
      (Arch platform = ''arm'' \<and> OS platform = ''android'') \<or>
      ((Arch platform = ''386'' \<or> Arch platform = ''amd64p32'') \<and> OS platform = ''nacl'')"
  shows "\<exists>env. VanadiumEnvironment w platform = Inr env"
proof -
  have sw: "\<exists>env. platformSwitch w env' platform = Inr env" for env'
    using supported setArmEnv_apply [OF root, of env' platform]
      setAndroidEnv_apply [OF root, of env' platform]
    by (auto simp: platformSwitch_def setNaclEnv_def)
  let ?env2 = "setVdlPath (setGoPath (environ w) root config) root config"
  show ?thesis
  proof (cases "OS platform = ''darwin'' \<or> OS platform = ''linux''")
    case True
    with stat setSyncbaseCgoEnv_Inl [of w ?env2 root "OS platform"]
    obtain env3 where "setSyncbaseCgoEnv w ?env2 root (OS platform) = Inr env3"
      by (cases "setSyncbaseCgoEnv w ?env2 root (OS platform)") auto
    with True sw [of env3] show ?thesis
      by (simp add: VanadiumEnvironment_unfold [OF root config])
  next
    case False
    with sw [of ?env2] show ?thesis
      by (simp add: VanadiumEnvironment_unfold [OF root config])
  qed
qed

lemma ResolveManifestPath_named:
  "name \<noteq> [] \<Longrightarrow>
   ResolveManifestPath w name = (if filepath_IsAbs name then Inr name else ManifestFile w name)"
  by (subst ResolveManifestPath.simps) simp

lemma ResolveManifestPath_empty:
  "ResolveManifestPath w [] =
     (case LocalManifestFile w of
        Inl err \<Rightarrow> Inl err
      | Inr path \<Rightarrow>
          (case Stat w path of
             StatNotExist \<Rightarrow> ResolveManifestPath w ''default''
           | StatOtherErr \<Rightarrow> Inl ManifestStatErr
           | StatOK \<Rightarrow> Inr path))"
  by (subst ResolveManifestPath.simps) simp

lemma filepath_IsAbs_nonempty: "filepath_IsAbs name \<Longrightarrow> name \<noteq> []"
  by (cases name) simp_all

section \<open>The store and the value of the snapshot\<close>

text \<open>What an operation on the store leaves as it is, and what it writes.\<close>

lemma Set_st_simps:
  "the_world (Set_st env key v s) = the_world s"
  "next_addr (Set_st env key v s) = next_addr s"
  "object (Set_st env key v s) a = (if a = env then Set (object s env) key v else object s a)"
  by (simp_all add: Set_st_def)

lemma SetTokens_st_simps:
  "the_world (SetTokens_st env key tokens sep s) = the_world s"
  "next_addr (SetTokens_st env key tokens sep s) = next_addr s"
  "object (SetTokens_st env key tokens sep s) a =
     (if a = env then SetTokens (object s env) key tokens sep else object s a)"
  by (simp_all add: SetTokens_st_def)

lemma NewSnapshotFromOS_st_simps:
  "fst (NewSnapshotFromOS_st s) = next_addr s"
  "the_world (snd (NewSnapshotFromOS_st s)) = the_world s"
  "next_addr (snd (NewSnapshotFromOS_st s)) = Suc (next_addr s)"
  "object (snd (NewSnapshotFromOS_st s)) a =
     (if a = next_addr s then environ (the_world s) else object s a)"
  by (simp_all add: NewSnapshotFromOS_st_def NewSnapshotFromOS_def)

lemma setGoPath_st_simps:
  "the_world (setGoPath_st env root config s) = the_world s"
  "object (setGoPath_st env root config s) a =
     (if a = env then setGoPath (object s env) root config else object s a)"
  by (simp_all add: setGoPath_st_def setGoPath_def GetTokens_st_def SetTokens_st_simps)

lemma setVdlPath_st_simps:
  "the_world (setVdlPath_st env root config s) = the_world s"
  "object (setVdlPath_st env root config s) a =
     (if a = env then setVdlPath (object s env) root config else object s a)"
  by (simp_all add: setVdlPath_st_def setVdlPath_def GetTokens_st_def SetTokens_st_simps)

text \<open>The helpers that may fail: the error is the error of the function on values, the
  world is left as it is, and no object other than the snapshot is written. When there is
  no error, the object is the snapshot of the function on values.\<close>

lemma setSyncbaseCgoEnv_st_simps:
  "fst (setSyncbaseCgoEnv_st env root arch s) =
     (case setSyncbaseCgoEnv (the_world s) (object s env) root arch of
        Inl err \<Rightarrow> Some err | Inr env' \<Rightarrow> None)"
  "the_world (snd (setSyncbaseCgoEnv_st env root arch s)) = the_world s"
  "a \<noteq> env \<Longrightarrow> object (snd (setSyncbaseCgoEnv_st env root arch s)) a = object s a"
  "setSyncbaseCgoEnv (the_world s) (object s env) root arch = Inr env' \<Longrightarrow>
     object (snd (setSyncbaseCgoEnv_st env root arch s)) env = env'"
  by (auto simp: setSyncbaseCgoEnv_st_def setSyncbaseCgoEnv_def Let_def GetTokens_st_def
        Set_st_simps SetTokens_st_simps split: stat_result.splits)

lemma setArmEnv_st_simps:
  "fst (setArmEnv_st env platform s) =
     (case setArmEnv (the_world s) (object s env) platform of
        Inl err \<Rightarrow> Some err | Inr env' \<Rightarrow> None)"
  "the_world (snd (setArmEnv_st env platform s)) = the_world s"
  "a \<noteq> env \<Longrightarrow> object (snd (setArmEnv_st env platform s)) a = object s a"
  "setArmEnv (the_world s) (object s env) platform = Inr env' \<Longrightarrow>
     object (snd (setArmEnv_st env platform s)) env = env'"
  by (auto simp: setArmEnv_st_def setArmEnv_def Let_def GetTokens_st_def
        Set_st_simps SetTokens_st_simps split: sum.splits)

lemma setAndroidEnv_st_simps:
  "fst (setAndroidEnv_st env platform s) =
     (case setAndroidEnv (the_world s) (object s env) platform of
        Inl err \<Rightarrow> Some err | Inr env' \<Rightarrow> None)"
  "the_world (snd (setAndroidEnv_st env platform s)) = the_world s"
  "a \<noteq> env \<Longrightarrow> object (snd (setAndroidEnv_st env platform s)) a = object s a"
  "setAndroidEnv (the_world s) (object s env) platform = Inr env' \<Longrightarrow>
     object (snd (setAndroidEnv_st env platform s)) env = env'"
  by (auto simp: setAndroidEnv_st_def setAndroidEnv_def Let_def GetTokens_st_def
        Set_st_simps SetTokens_st_simps split: sum.splits)

lemma setNaclEnv_st_simps:
  "fst (setNaclEnv_st env platform s) =
     (case setNaclEnv (object s env) platform of Inl err \<Rightarrow> Some err | Inr env' \<Rightarrow> None)"
  "the_world (snd (setNaclEnv_st env platform s)) = the_world s"
  "a \<noteq> env \<Longrightarrow> object (snd (setNaclEnv_st env platform s)) a = object s a"
  "setNaclEnv (object s env) platform = Inr env' \<Longrightarrow>
     object (snd (setNaclEnv_st env platform s)) env = env'"
  by (auto simp: setNaclEnv_st_def setNaclEnv_def Let_def Set_st_simps)

lemma platformSwitch_st_simps:
  "fst (platformSwitch_st env platform s) =
     (case platformSwitch (the_world s) (object s env) platform of
        Inl err \<Rightarrow> Some err | Inr env' \<Rightarrow> None)"
  "the_world (snd (platformSwitch_st env platform s)) = the_world s"
  "a \<noteq> env \<Longrightarrow> object (snd (platformSwitch_st env platform s)) a = object s a"
  "platformSwitch (the_world s) (object s env) platform = Inr env' \<Longrightarrow>
     object (snd (platformSwitch_st env platform s)) env = env'"
  by (auto simp: platformSwitch_st_def platformSwitch_def setArmEnv_st_simps
        setAndroidEnv_st_simps setNaclEnv_st_simps)

text \<open>\<^verbatim>\<open>VanadiumEnvironment\<close> over the store and over values: the same error, or the pointer
  to a new object that holds the snapshot of the function on values.\<close>

lemma VanadiumEnvironment_st_result:
  "fst (VanadiumEnvironment_st platform s) =
     (case VanadiumEnvironment (the_world s) platform of
        Inl err \<Rightarrow> Inl err
      | Inr env \<Rightarrow> Inr (next_addr s))"
  by (simp add: VanadiumEnvironment_st_def VanadiumEnvironment_def NewSnapshotFromOS_def
        case_prod_beta Let_def NewSnapshotFromOS_st_simps setGoPath_st_simps
        setVdlPath_st_simps setSyncbaseCgoEnv_st_simps platformSwitch_st_simps
        split: sum.splits option.splits)

lemma VanadiumEnvironment_st_object:
  assumes "VanadiumEnvironment (the_world s) platform = Inr env"
  shows "object (snd (VanadiumEnvironment_st platform s)) (next_addr s) = env"
  using assms
  by (auto simp: VanadiumEnvironment_st_def VanadiumEnvironment_def NewSnapshotFromOS_def
        case_prod_beta Let_def NewSnapshotFromOS_st_simps setGoPath_st_simps
        setVdlPath_st_simps setSyncbaseCgoEnv_st_simps platformSwitch_st_simps
        split: sum.splits option.splits if_splits)

text \<open>Whatever the result, the call leaves the world as it is and writes to no object
  that was there before: all it writes to is the object it has made.\<close>

lemma VanadiumEnvironment_st_frame:
  "the_world (snd (VanadiumEnvironment_st platform s)) = the_world s"
  "a \<noteq> next_addr s \<Longrightarrow> object (snd (VanadiumEnvironment_st platform s)) a = object s a"
  by (auto simp: VanadiumEnvironment_st_def case_prod_beta Let_def NewSnapshotFromOS_st_simps
        setGoPath_st_simps setVdlPath_st_simps setSyncbaseCgoEnv_st_simps
        platformSwitch_st_simps split: sum.splits option.splits)

section \<open>Facts about the example worlds\<close>

lemma example_paths:
  "filepath_Join [''/v23'', ''third_party'', ''cout'', ''leveldb''] = ''/v23/third_party/cout/leveldb''"
  "filepath_Join [''-I/v23/third_party/cout/leveldb'', ''include''] =
     ''-I/v23/third_party/cout/leveldb/include''"
  "filepath_Join [''-L/v23/third_party/cout/leveldb'', ''lib''] =
     ''-L/v23/third_party/cout/leveldb/lib''"
  "filepath_Join [''/v23/third_party/cout/leveldb'', ''lib''] = ''/v23/third_party/cout/leveldb/lib''"
  "filepath_Join [''/v23'', ''third_party'', ''cout'', ''xgcc'', ''cross_arm''] =
     ''/v23/third_party/cout/xgcc/cross_arm''"
  "filepath_Join [''/v23'', ''third_party'', ''repos'', ''go_arm'', ''bin''] =
     ''/v23/third_party/repos/go_arm/bin''"
  "filepath_Join [''/v23'', ''environment'', ''android'', ''go'', ''bin''] =
     ''/v23/environment/android/go/bin''"
  "filepath_Join [''/v23'', ''release/go''] = ''/v23/release/go''"
  "filepath_Join [''/v23'', ''release/vdl''] = ''/v23/release/vdl''"
  "filepath_Join [''/v23'', ''.local_manifest''] = ''/v23/.local_manifest''"
  "filepath_Join [''/v23'', ''.manifest'', ''v2''] = ''/v23/.manifest/v2''"
  "filepath_Join [''/v23/.manifest/v2'', ''default''] = ''/v23/.manifest/v2/default''"
  "filepath_Join [''/v23/.manifest/v2'', ''snapshot''] = ''/v23/.manifest/v2/snapshot''"
  "filepath_Join [''/v23/devtools'', ''data''] = ''/v23/devtools/data''"
  "filepath_Join [''/v23/devtools/data'', ''conf.json''] = ''/v23/devtools/data/conf.json''"
  by code_simp+

lemma example_V23Root: "V23Root example_world = Inr ''/v23''"
  by (simp add: example_world_def V23Root_def Getenv_def rootEnv_def)

lemma example_DataDirPath: "DataDirPath example_world ''v23'' = Inr ''/v23/devtools/data''"
  by (simp add: example_world_def DataDirPath_def example_paths)

lemma example_LoadConfig: "LoadConfig example_world = Inr example_config"
  using example_DataDirPath by (simp add: example_world_def LoadConfig_def example_paths)

lemma example_tokens:
  "Split (CHR '':'') ''/usr/bin:/bin'' = [''/usr/bin'', ''/bin'']"
  "Split (CHR '':'') ''/home/go'' = [''/home/go'']"
  by code_simp+

lemma example_V23Root_variants:
  "V23Root world_no_leveldb = Inr ''/v23''"
  "V23Root world_arm_host = Inr ''/v23''"
  "V23Root world_darwin_host = Inr ''/v23''"
  "V23Root world_config_missing = Inr ''/v23''"
  "V23Root world_leveldb_unreadable = Inr ''/v23''"
  by (simp_all add: world_no_leveldb_def world_arm_host_def world_darwin_host_def
        world_config_missing_def world_leveldb_unreadable_def example_world_def V23Root_def
        Getenv_def rootEnv_def)

lemma example_LoadConfig_variants:
  "LoadConfig world_no_leveldb = Inr example_config"
  "LoadConfig world_arm_host = Inr example_config"
  "LoadConfig world_darwin_host = Inr example_config"
  "LoadConfig world_leveldb_unreadable = Inr example_config"
  by (simp_all add: world_no_leveldb_def world_arm_host_def world_darwin_host_def
        world_leveldb_unreadable_def example_world_def LoadConfig_def DataDirPath_def
        example_paths)

lemma example_failures:
  "V23Root world_root_unset = Inl (NotSetErr ''V23_ROOT'')"
  "LoadConfig world_config_missing = Inl (ReadFileErr ''/v23/devtools/data/conf.json'')"
  "Stat world_leveldb_unreadable (filepath_Join [''/v23'', ''third_party'', ''cout'', ''leveldb'']) =
     StatOtherErr"
  by (simp_all add: world_root_unset_def world_config_missing_def world_leveldb_unreadable_def
        example_world_def V23Root_def Getenv_def rootEnv_def LoadConfig_def DataDirPath_def
        example_paths)

lemma example_Stat:
  "Stat example_world (filepath_Join [''/v23'', ''third_party'', ''cout'', ''leveldb'']) = StatOK"
  "Stat world_arm_host (filepath_Join [''/v23'', ''third_party'', ''cout'', ''leveldb'']) = StatOK"
  "Stat world_darwin_host (filepath_Join [''/v23'', ''third_party'', ''cout'', ''leveldb'']) = StatOK"
  "Stat world_no_leveldb (filepath_Join [''/v23'', ''third_party'', ''cout'', ''leveldb'']) =
     StatNotExist"
  by (simp_all add: example_paths example_world_def world_arm_host_def world_darwin_host_def
        world_no_leveldb_def)

lemma example_hosts:
  "GOARCH example_world = ''amd64''" "GOOS example_world = ''linux''"
  "GOARCH world_no_leveldb = ''amd64''" "GOOS world_no_leveldb = ''linux''"
  "GOARCH world_arm_host = ''arm''" "GOOS world_arm_host = ''linux''"
  "GOARCH world_darwin_host = ''amd64''" "GOOS world_darwin_host = ''darwin''"
  "GOARCH world_root_unset = ''amd64''" "GOOS world_root_unset = ''linux''"
  "GOARCH world_config_missing = ''amd64''" "GOOS world_config_missing = ''linux''"
  "GOARCH world_leveldb_unreadable = ''amd64''" "GOOS world_leveldb_unreadable = ''linux''"
  by (simp_all add: example_world_def world_no_leveldb_def world_arm_host_def
        world_darwin_host_def world_root_unset_def world_config_missing_def
        world_leveldb_unreadable_def)

lemma example_android_ok: "\<exists>env. VanadiumEnvironment example_world arm_android_v7 = Inr env"
  by (rule VanadiumEnvironment_succeeds [OF example_V23Root example_LoadConfig])
    (simp_all add: arm_android_v7_def)

lemma example_arm_ok: "\<exists>env. VanadiumEnvironment example_world arm_linux_v7 = Inr env"
  by (rule VanadiumEnvironment_succeeds [OF example_V23Root example_LoadConfig])
    (simp_all add: arm_linux_v7_def example_Stat example_hosts)

lemma example_host_ok: "\<exists>env. VanadiumEnvironment example_world amd64_linux = Inr env"
  by (rule VanadiumEnvironment_succeeds [OF example_V23Root example_LoadConfig])
    (simp_all add: amd64_linux_def example_Stat example_hosts)

lemma example_no_leveldb_ok: "\<exists>env. VanadiumEnvironment world_no_leveldb amd64_linux = Inr env"
  by (rule VanadiumEnvironment_succeeds [OF example_V23Root_variants(1)
        example_LoadConfig_variants(1)])
    (simp_all add: amd64_linux_def example_Stat example_hosts)

lemma example_arm_host_ok: "\<exists>env. VanadiumEnvironment world_arm_host arm_linux_v7 = Inr env"
  by (rule VanadiumEnvironment_succeeds [OF example_V23Root_variants(2)
        example_LoadConfig_variants(2)])
    (simp_all add: arm_linux_v7_def example_Stat example_hosts)

lemma example_darwin_ok: "\<exists>env. VanadiumEnvironment world_darwin_host amd64_darwin = Inr env"
  by (rule VanadiumEnvironment_succeeds [OF example_V23Root_variants(3)
        example_LoadConfig_variants(3)])
    (simp_all add: amd64_darwin_def example_Stat example_hosts)

section \<open>Environment construction\<close>

text \<open>
  Claim C1, as the code has it. For a platform that is neither the host nor one of
  \<^verbatim>\<open>arm\<close>/\<^verbatim>\<open>linux\<close>, \<^verbatim>\<open>arm\<close>/\<^verbatim>\<open>android\<close>, \<^verbatim>\<open>386\<close>/\<^verbatim>\<open>nacl\<close> and \<^verbatim>\<open>amd64p32\<close>/\<^verbatim>\<open>nacl\<close>,
  \<^verbatim>\<open>VanadiumEnvironment\<close> always returns an error and no snapshot. The error is that of
  \<^verbatim>\<open>V23Root\<close> when the root lookup fails; else that of \<^verbatim>\<open>LoadConfig\<close> when the load of
  the configuration fails; else, on \<^verbatim>\<open>darwin\<close> and \<^verbatim>\<open>linux\<close>, the error of \<^verbatim>\<open>Stat\<close> when
  \<^verbatim>\<open>Stat\<close> of the LevelDB directory fails with an error other than that the directory
  does not exist; and \<^verbatim>\<open>UnsupportedPlatformErr\<close> with the platform, of the class
  \<open>UnsupportedPlatformError\<close>, in every other case. Over the store, the call returns
  the same error and no pointer, leaves the world as it is, the environment of the
  process with it, and leaves every object other than the one it has made as it is.
\<close>

theorem unsupported_platform_fails:
  assumes world: "the_world s = w"
    and host: "\<not> (Arch platform = GOARCH w \<and> OS platform = GOOS w)"
    and arm_linux: "\<not> (Arch platform = ''arm'' \<and> OS platform = ''linux'')"
    and arm_android: "\<not> (Arch platform = ''arm'' \<and> OS platform = ''android'')"
    and nacl_386: "\<not> (Arch platform = ''386'' \<and> OS platform = ''nacl'')"
    and nacl_amd64p32: "\<not> (Arch platform = ''amd64p32'' \<and> OS platform = ''nacl'')"
    and dir: "dir = filepath_Join [root, ''third_party'', ''cout'', ''leveldb'']"
  shows "(\<exists>err. VanadiumEnvironment w platform = Inl err) \<and>
    (V23Root w = Inl err \<longrightarrow> VanadiumEnvironment w platform = Inl err) \<and>
    (V23Root w = Inr root \<and> LoadConfig w = Inl err \<longrightarrow>
       VanadiumEnvironment w platform = Inl err) \<and>
    (V23Root w = Inr root \<and> LoadConfig w = Inr config \<and>
     (OS platform = ''darwin'' \<or> OS platform = ''linux'') \<and> Stat w dir = StatOtherErr \<longrightarrow>
       VanadiumEnvironment w platform = Inl (StatErr dir)) \<and>
    (V23Root w = Inr root \<and> LoadConfig w = Inr config \<and>
     (OS platform = ''darwin'' \<or> OS platform = ''linux'' \<longrightarrow> Stat w dir \<noteq> StatOtherErr) \<longrightarrow>
       VanadiumEnvironment w platform = Inl (UnsupportedPlatformErr platform) \<and>
       class_of (UnsupportedPlatformErr platform) = UnsupportedPlatformError) \<and>
    (\<exists>err. fst (VanadiumEnvironment_st platform s) = Inl err \<and>
           VanadiumEnvironment w platform = Inl err) \<and>
    the_world (snd (VanadiumEnvironment_st platform s)) = w \<and>
    environ (the_world (snd (VanadiumEnvironment_st platform s))) = environ w \<and>
    (a \<noteq> next_addr s \<longrightarrow> object (snd (VanadiumEnvironment_st platform s)) a = object s a)"
proof -
  note sw = platformSwitch_unsupported [OF host arm_linux arm_android nacl_386 nacl_amd64p32]
  have fails: "\<exists>err. VanadiumEnvironment w platform = Inl err"
  proof (cases "VanadiumEnvironment w platform")
    case (Inl err)
    then show ?thesis by simp
  next
    case (Inr env)
    then obtain root config where "V23Root w = Inr root" and "LoadConfig w = Inr config"
      by (rule VanadiumEnvironment_Inr_steps)
    from VanadiumEnvironment_unfold [OF this, of platform] Inr show ?thesis
      by (simp add: sw split: if_splits sum.splits)
  qed
  have no_root: "VanadiumEnvironment w platform = Inl err" if "V23Root w = Inl err"
    using that by (simp add: VanadiumEnvironment_def)
  have no_config: "VanadiumEnvironment w platform = Inl err"
    if "V23Root w = Inr root" and "LoadConfig w = Inl err"
    using that by (simp add: VanadiumEnvironment_def)
  have no_stat: "VanadiumEnvironment w platform = Inl (StatErr dir)"
    if "V23Root w = Inr root" and "LoadConfig w = Inr config"
      and "OS platform = ''darwin'' \<or> OS platform = ''linux''" and "Stat w dir = StatOtherErr"
  proof -
    from that(4) have "setSyncbaseCgoEnv w env root (OS platform) = Inl (StatErr dir)" for env
      by (simp add: setSyncbaseCgoEnv_Inl dir)
    with that(3) show ?thesis
      by (simp add: VanadiumEnvironment_unfold [OF that(1,2)])
  qed
  have unsupported: "VanadiumEnvironment w platform = Inl (UnsupportedPlatformErr platform)"
    if "V23Root w = Inr root" and "LoadConfig w = Inr config"
      and "OS platform = ''darwin'' \<or> OS platform = ''linux'' \<longrightarrow> Stat w dir \<noteq> StatOtherErr"
    using that VanadiumEnvironment_unfold [OF that(1,2), of platform]
    by (auto simp: sw setSyncbaseCgoEnv_Inl dir split: sum.splits)
  from fails obtain err' where err': "VanadiumEnvironment w platform = Inl err'"
    by blast
  with VanadiumEnvironment_st_result [of platform s] world
  have pointer: "fst (VanadiumEnvironment_st platform s) = Inl err'"
    by simp
  have frame: "the_world (snd (VanadiumEnvironment_st platform s)) = w"
    "object (snd (VanadiumEnvironment_st platform s)) a = object s a" if "a \<noteq> next_addr s"
    using that world by (simp_all add: VanadiumEnvironment_st_frame)
  from fails no_root no_config no_stat unsupported err' pointer frame
    VanadiumEnvironment_st_frame(1) [of platform s] world
  show ?thesis
    by simp
qed

theorem unsupported_platform_fails_witness:
  "VanadiumEnvironment example_world mips_plan9 = Inl (UnsupportedPlatformErr mips_plan9) \<and>
   VanadiumEnvironment example_world mips_linux = Inl (UnsupportedPlatformErr mips_linux) \<and>
   VanadiumEnvironment world_root_unset mips_plan9 = Inl (NotSetErr ''V23_ROOT'') \<and>
   VanadiumEnvironment world_config_missing mips_plan9 =
     Inl (ReadFileErr ''/v23/devtools/data/conf.json'') \<and>
   VanadiumEnvironment world_leveldb_unreadable mips_linux =
     Inl (StatErr ''/v23/third_party/cout/leveldb'') \<and>
   fst (VanadiumEnvironment_st mips_linux (example_store example_world)) =
     Inl (UnsupportedPlatformErr mips_linux) \<and>
   the_world (snd (VanadiumEnvironment_st mips_linux (example_store example_world))) =
     example_world \<and>
   object (snd (VanadiumEnvironment_st mips_linux (example_store example_world))) 0 =
     [''HOME'' \<mapsto> ''/root'']"
proof -
  have plan9: "Arch mips_plan9 = ''mips''" "OS mips_plan9 = ''plan9''"
    and linux: "Arch mips_linux = ''mips''" "OS mips_linux = ''linux''"
    by (simp_all add: mips_plan9_def mips_linux_def)
  have store: "the_world (example_store w) = w" "next_addr (example_store w) = 1"
    "object (example_store w) 0 = [''HOME'' \<mapsto> ''/root'']" for w
    by (simp_all add: example_store_def)
  have unsupported_plan9:
    "VanadiumEnvironment example_world mips_plan9 = Inl (UnsupportedPlatformErr mips_plan9)"
    using unsupported_platform_fails [where s = "example_store example_world"
        and w = example_world and platform = mips_plan9 and root = "''/v23''"
        and config = example_config, OF _ _ _ _ _ _ refl]
      example_V23Root example_LoadConfig
    by (simp add: plan9 store example_hosts)
  have unsupported_linux:
    "VanadiumEnvironment example_world mips_linux = Inl (UnsupportedPlatformErr mips_linux) \<and>
     fst (VanadiumEnvironment_st mips_linux (example_store example_world)) =
       Inl (UnsupportedPlatformErr mips_linux) \<and>
     the_world (snd (VanadiumEnvironment_st mips_linux (example_store example_world))) =
       example_world \<and>
     object (snd (VanadiumEnvironment_st mips_linux (example_store example_world))) 0 =
       [''HOME'' \<mapsto> ''/root'']"
    using unsupported_platform_fails [where s = "example_store example_world"
        and w = example_world and platform = mips_linux and root = "''/v23''"
        and config = example_config and a = 0, OF _ _ _ _ _ _ refl]
      example_V23Root example_LoadConfig example_Stat(1)
    by (auto simp: linux store example_hosts)
  have root_unset: "VanadiumEnvironment world_root_unset mips_plan9 = Inl (NotSetErr ''V23_ROOT'')"
    using unsupported_platform_fails [where s = "example_store world_root_unset"
        and w = world_root_unset and platform = mips_plan9
        and err = "NotSetErr ''V23_ROOT''", OF _ _ _ _ _ _ refl]
      example_failures(1)
    by (simp add: plan9 store example_hosts)
  have config_missing: "VanadiumEnvironment world_config_missing mips_plan9 =
      Inl (ReadFileErr ''/v23/devtools/data/conf.json'')"
    using unsupported_platform_fails [where s = "example_store world_config_missing"
        and w = world_config_missing and platform = mips_plan9 and root = "''/v23''"
        and err = "ReadFileErr ''/v23/devtools/data/conf.json''", OF _ _ _ _ _ _ refl]
      example_V23Root_variants(4) example_failures(2)
    by (simp add: plan9 store example_hosts)
  have stat_failed: "VanadiumEnvironment world_leveldb_unreadable mips_linux =
      Inl (StatErr ''/v23/third_party/cout/leveldb'')"
    using unsupported_platform_fails [where s = "example_store world_leveldb_unreadable"
        and w = world_leveldb_unreadable and platform = mips_linux and root = "''/v23''"
        and config = example_config, OF _ _ _ _ _ _ refl]
      example_V23Root_variants(5) example_LoadConfig_variants(4) example_failures(3)
    by (simp add: linux store example_hosts example_paths)
  from unsupported_plan9 unsupported_linux root_unset config_missing stat_failed
  show ?thesis
    by simp
qed

text \<open>
  Claim C1 as it is stated fails where \<^verbatim>\<open>V23_ROOT\<close> is not set: the root lookup comes
  first, and for the platform \<^verbatim>\<open>mips\<close>/\<^verbatim>\<open>plan9\<close> on the host \<^verbatim>\<open>amd64\<close>/\<^verbatim>\<open>linux\<close> the error is
  that of \<^verbatim>\<open>V23Root\<close>, not \<^verbatim>\<open>UnsupportedPlatformErr\<close>.
\<close>

theorem unsupported_platform_counterexample:
  "GOARCH world_root_unset = ''amd64'' \<and> GOOS world_root_unset = ''linux'' \<and>
   VanadiumEnvironment world_root_unset \<lparr>Arch = ''mips'', OS = ''plan9'', SubArch = []\<rparr> =
     Inl (NotSetErr ''V23_ROOT'') \<and>
   class_of (NotSetErr ''V23_ROOT'') = ConfigError"
proof -
  have "V23Root world_root_unset = Inl (NotSetErr ''V23_ROOT'')"
    by (simp add: world_root_unset_def example_world_def V23Root_def Getenv_def rootEnv_def)
  then show ?thesis
    by (simp add: VanadiumEnvironment_def example_hosts)
qed

text \<open>
  Claim C2. Let the platform be \<^verbatim>\<open>arm\<close>/\<^verbatim>\<open>linux\<close> on a host that is not, and let
  \<^verbatim>\<open>VanadiumEnvironment\<close> return a snapshot. Then \<^verbatim>\<open>GOARCH\<close> is \<^verbatim>\<open>arm\<close>, \<^verbatim>\<open>GOOS\<close> is
  \<^verbatim>\<open>linux\<close>, \<^verbatim>\<open>GOARM\<close> is the sub-architecture without its leading \<^verbatim>\<open>v\<close>, and \<^verbatim>\<open>PATH\<close> is
  \<^verbatim>\<open><root>/third_party/cout/xgcc/cross_arm\<close>, then \<^verbatim>\<open><root>/third_party/repos/go_arm/bin\<close>,
  then the tokens of the \<^verbatim>\<open>PATH\<close> of the process, joined by colons. When neither new
  entry contains a colon, reading the tokens of \<^verbatim>\<open>PATH\<close> back gives exactly this list.
\<close>

theorem arm_linux_environment:
  assumes arm: "Arch platform = ''arm''" and linux: "OS platform = ''linux''"
    and host: "\<not> (GOARCH w = ''arm'' \<and> GOOS w = ''linux'')"
    and root: "V23Root w = Inr root"
    and ok: "VanadiumEnvironment w platform = Inr env"
    and xgcc: "xgcc = filepath_Join [root, ''third_party'', ''cout'', ''xgcc'', ''cross_arm'']"
    and go_arm: "go_arm = filepath_Join [root, ''third_party'', ''repos'', ''go_arm'', ''bin'']"
  shows "env ''GOARCH'' = Some ''arm'' \<and> env ''GOOS'' = Some ''linux'' \<and>
         env ''GOARM'' = Some (TrimPrefix_v (SubArch platform)) \<and>
         env ''PATH'' = Some (Join (CHR '':'')
           ([xgcc, go_arm] @ GetTokens (environ w) ''PATH'' (CHR '':''))) \<and>
         (CHR '':'' \<notin> set xgcc \<and> CHR '':'' \<notin> set go_arm \<longrightarrow>
            GetTokens env ''PATH'' (CHR '':'') =
              [xgcc, go_arm] @ GetTokens (environ w) ''PATH'' (CHR '':''))"
proof -
  from ok obtain root' config where "V23Root w = Inr root'" and config: "LoadConfig w = Inr config"
    by (rule VanadiumEnvironment_Inr_steps)
  let ?env2 = "setVdlPath (setGoPath (environ w) root config) root config"
  from VanadiumEnvironment_unfold [OF root config, of platform] ok linux
  obtain env3 where cgo: "setSyncbaseCgoEnv w ?env2 root ''linux'' = Inr env3"
    and sw: "platformSwitch w env3 platform = Inr env"
    by (auto split: sum.splits)
  have path3: "GetTokens env3 ''PATH'' (CHR '':'') = GetTokens (environ w) ''PATH'' (CHR '':'')"
    using setSyncbaseCgoEnv_Inr(3) [OF cgo, of "''PATH''"]
    by (simp add: GetTokens_def workspaces_env_apply)
  from sw arm linux host have "setArmEnv w env3 platform = Inr env"
    by (auto simp: platformSwitch_def)
  with setArmEnv_apply [OF root, of env3 platform] arm linux path3
  have vars: "env ''GOARCH'' = Some ''arm''" "env ''GOOS'' = Some ''linux''"
    "env ''GOARM'' = Some (TrimPrefix_v (SubArch platform))"
    and path: "env ''PATH'' = Some (Join (CHR '':'')
      ([xgcc, go_arm] @ GetTokens (environ w) ''PATH'' (CHR '':'')))"
    by (auto simp: xgcc go_arm)
  have "GetTokens env ''PATH'' (CHR '':'') =
      [xgcc, go_arm] @ GetTokens (environ w) ''PATH'' (CHR '':'')"
    if "CHR '':'' \<notin> set xgcc \<and> CHR '':'' \<notin> set go_arm"
    using that by (intro GetTokens_written [where env = env and key = "''PATH''", OF path]) (auto dest: GetTokens_tokens)
  with vars path show ?thesis
    by simp
qed

theorem arm_linux_environment_witness:
  "\<exists>env. VanadiumEnvironment example_world arm_linux_v7 = Inr env \<and>
         environ example_world ''PATH'' = Some ''/usr/bin:/bin'' \<and>
         env ''GOARCH'' = Some ''arm'' \<and> env ''GOOS'' = Some ''linux'' \<and>
         env ''GOARM'' = Some ''7'' \<and>
         env ''PATH'' = Some
           ''/v23/third_party/cout/xgcc/cross_arm:/v23/third_party/repos/go_arm/bin:/usr/bin:/bin'' \<and>
         GetTokens env ''PATH'' (CHR '':'') =
           [''/v23/third_party/cout/xgcc/cross_arm'', ''/v23/third_party/repos/go_arm/bin'',
            ''/usr/bin'', ''/bin'']"
proof -
  obtain env where ok: "VanadiumEnvironment example_world arm_linux_v7 = Inr env"
    using example_arm_ok by blast
  have platform: "Arch arm_linux_v7 = ''arm''" "OS arm_linux_v7 = ''linux''"
    "SubArch arm_linux_v7 = ''v7''"
    by (simp_all add: arm_linux_v7_def)
  have host: "\<not> (GOARCH example_world = ''arm'' \<and> GOOS example_world = ''linux'')"
    by (simp add: example_hosts)
  have path: "environ example_world ''PATH'' = Some ''/usr/bin:/bin''"
    by (simp add: example_world_def)
  from arm_linux_environment [OF platform(1,2) host example_V23Root ok refl refl] ok path
  show ?thesis
    by (simp add: platform GetTokens_def [of "environ example_world"] example_tokens example_paths)
qed

text \<open>
  Claim C3, as the code has it. For the platform \<^verbatim>\<open>arm\<close>/\<^verbatim>\<open>android\<close> with the
  sub-architecture \<^verbatim>\<open>v7\<close>, on a host that is not \<^verbatim>\<open>arm\<close>/\<^verbatim>\<open>android\<close>, the construction
  returns a snapshot whenever the root lookup and the load of the configuration
  succeed. In the snapshot \<^verbatim>\<open>GOARM\<close> is \<^verbatim>\<open>7\<close>, \<^verbatim>\<open>CGO_ENABLED\<close> is \<^verbatim>\<open>1\<close>, \<^verbatim>\<open>GOOS\<close> is
  \<^verbatim>\<open>android\<close>, \<^verbatim>\<open>GOARCH\<close> is \<^verbatim>\<open>arm\<close>, and \<^verbatim>\<open>PATH\<close> is \<^verbatim>\<open><root>/environment/android/go/bin\<close>
  followed by the tokens of the \<^verbatim>\<open>PATH\<close> of the process, joined by colons. When the new
  entry contains no colon, reading the tokens of \<^verbatim>\<open>PATH\<close> back gives exactly this list.
\<close>

theorem android_environment:
  assumes platform: "platform = \<lparr>Arch = ''arm'', OS = ''android'', SubArch = ''v7''\<rparr>"
    and host: "\<not> (GOARCH w = ''arm'' \<and> GOOS w = ''android'')"
    and root: "V23Root w = Inr root"
    and config: "LoadConfig w = Inr config"
    and go_bin: "go_bin = filepath_Join [root, ''environment'', ''android'', ''go'', ''bin'']"
  shows "\<exists>env. VanadiumEnvironment w platform = Inr env \<and>
         env ''GOARM'' = Some ''7'' \<and> env ''CGO_ENABLED'' = Some ''1'' \<and>
         env ''GOOS'' = Some ''android'' \<and> env ''GOARCH'' = Some ''arm'' \<and>
         env ''PATH'' = Some (Join (CHR '':'')
           ([go_bin] @ GetTokens (environ w) ''PATH'' (CHR '':''))) \<and>
         (CHR '':'' \<notin> set go_bin \<longrightarrow>
            GetTokens env ''PATH'' (CHR '':'') =
              [go_bin] @ GetTokens (environ w) ''PATH'' (CHR '':''))"
proof -
  let ?env2 = "setVdlPath (setGoPath (environ w) root config) root config"
  have "VanadiumEnvironment w platform = setAndroidEnv w ?env2 platform"
    using VanadiumEnvironment_unfold [OF root config, of platform] host
    by (auto simp: platform platformSwitch_def)
  with setAndroidEnv_apply [OF root, of ?env2 platform]
  obtain env where ok: "VanadiumEnvironment w platform = Inr env"
    and vars: "env ''GOARM'' = Some ''7''" "env ''CGO_ENABLED'' = Some ''1''"
      "env ''GOOS'' = Some ''android''" "env ''GOARCH'' = Some ''arm''"
    and path: "env ''PATH'' = Some (Join (CHR '':'')
      ([go_bin] @ GetTokens (environ w) ''PATH'' (CHR '':'')))"
    by (auto simp: platform workspaces_env_PATH go_bin)
  have "GetTokens env ''PATH'' (CHR '':'') = [go_bin] @ GetTokens (environ w) ''PATH'' (CHR '':'')"
    if "CHR '':'' \<notin> set go_bin"
    using that by (intro GetTokens_written [where env = env and key = "''PATH''", OF path]) (auto dest: GetTokens_tokens)
  with ok vars path show ?thesis
    by simp
qed

theorem android_environment_witness:
  "\<exists>env. VanadiumEnvironment example_world \<lparr>Arch = ''arm'', OS = ''android'', SubArch = ''v7''\<rparr> =
           Inr env \<and>
         environ example_world ''PATH'' = Some ''/usr/bin:/bin'' \<and>
         env ''GOARM'' = Some ''7'' \<and> env ''CGO_ENABLED'' = Some ''1'' \<and>
         env ''GOOS'' = Some ''android'' \<and> env ''GOARCH'' = Some ''arm'' \<and>
         env ''PATH'' = Some ''/v23/environment/android/go/bin:/usr/bin:/bin'' \<and>
         GetTokens env ''PATH'' (CHR '':'') =
           [''/v23/environment/android/go/bin'', ''/usr/bin'', ''/bin'']"
proof -
  have host: "\<not> (GOARCH example_world = ''arm'' \<and> GOOS example_world = ''android'')"
    by (simp add: example_hosts)
  have path: "environ example_world ''PATH'' = Some ''/usr/bin:/bin''"
    by (simp add: example_world_def)
  from android_environment [OF refl host example_V23Root example_LoadConfig refl] path
  show ?thesis
    by (simp add: GetTokens_def [of "environ example_world"] example_tokens example_paths)
qed

text \<open>
  Claim C3 as it is stated fails where the configuration cannot be read: the root is
  found, the host is \<^verbatim>\<open>amd64\<close>/\<^verbatim>\<open>linux\<close>, and the construction for \<^verbatim>\<open>arm\<close>/\<^verbatim>\<open>android\<close>
  returns the error of \<^verbatim>\<open>ReadFile\<close> and no snapshot.
\<close>

theorem android_environment_counterexample:
  "V23Root world_config_missing = Inr ''/v23'' \<and>
   GOARCH world_config_missing = ''amd64'' \<and> GOOS world_config_missing = ''linux'' \<and>
   VanadiumEnvironment world_config_missing
     \<lparr>Arch = ''arm'', OS = ''android'', SubArch = ''v7''\<rparr> =
     Inl (ReadFileErr ''/v23/devtools/data/conf.json'')"
proof -
  have "LoadConfig world_config_missing = Inl (ReadFileErr ''/v23/devtools/data/conf.json'')"
    by (simp add: world_config_missing_def example_world_def LoadConfig_def DataDirPath_def
          example_paths)
  then show ?thesis
    by (simp add: VanadiumEnvironment_def example_V23Root_variants example_hosts)
qed

text \<open>
  Claim C4. Let the operating system of the platform be \<^verbatim>\<open>darwin\<close> or \<^verbatim>\<open>linux\<close>, and let
  \<^verbatim>\<open>VanadiumEnvironment\<close> return a snapshot. Then \<^verbatim>\<open>CGO_ENABLED\<close> is \<^verbatim>\<open>1\<close>. When the
  directory \<^verbatim>\<open><root>/third_party/cout/leveldb\<close> exists, \<^verbatim>\<open>CGO_CFLAGS\<close> is the tokens of
  the process followed by \<^verbatim>\<open>-I<dir>/include\<close>, and \<^verbatim>\<open>CGO_LDFLAGS\<close> is the tokens of the
  process followed by \<^verbatim>\<open>-L<dir>/lib\<close> and, on \<^verbatim>\<open>linux\<close> only, by \<^verbatim>\<open>-Wl,-rpath\<close> and
  \<^verbatim>\<open><dir>/lib\<close>. When the directory does not exist, both variables hold the tokens of
  the process and nothing else. A snapshot is returned only when \<^verbatim>\<open>Stat\<close> gives one of
  these two answers.
\<close>

theorem syncbase_cgo_environment:
  assumes os: "OS platform = ''darwin'' \<or> OS platform = ''linux''"
    and root: "V23Root w = Inr root"
    and ok: "VanadiumEnvironment w platform = Inr env"
    and dir: "dir = filepath_Join [root, ''third_party'', ''cout'', ''leveldb'']"
  shows "env ''CGO_ENABLED'' = Some ''1'' \<and>
    Stat w dir \<noteq> StatOtherErr \<and>
    (Stat w dir = StatOK \<longrightarrow>
       env ''CGO_CFLAGS'' = Some (Join (CHR '' '')
         (GetTokens (environ w) ''CGO_CFLAGS'' (CHR '' '') @
          [filepath_Join [''-I'' @ dir, ''include'']])) \<and>
       env ''CGO_LDFLAGS'' = Some (Join (CHR '' '')
         (GetTokens (environ w) ''CGO_LDFLAGS'' (CHR '' '') @
          [filepath_Join [''-L'' @ dir, ''lib'']] @
          (if OS platform = ''linux''
           then [''-Wl,-rpath'', filepath_Join [dir, ''lib'']] else [])))) \<and>
    (Stat w dir = StatNotExist \<longrightarrow>
       env ''CGO_CFLAGS'' =
         Some (Join (CHR '' '') (GetTokens (environ w) ''CGO_CFLAGS'' (CHR '' ''))) \<and>
       env ''CGO_LDFLAGS'' =
         Some (Join (CHR '' '') (GetTokens (environ w) ''CGO_LDFLAGS'' (CHR '' ''))))"
proof -
  from ok obtain root' config where "V23Root w = Inr root'" and config: "LoadConfig w = Inr config"
    by (rule VanadiumEnvironment_Inr_steps)
  let ?env2 = "setVdlPath (setGoPath (environ w) root config) root config"
  from VanadiumEnvironment_unfold [OF root config, of platform] ok os
  obtain env3 where cgo: "setSyncbaseCgoEnv w ?env2 root (OS platform) = Inr env3"
    and sw: "platformSwitch w env3 platform = Inr env"
    by (auto split: sum.splits)
  have old:
    "GetTokens ?env2 ''CGO_CFLAGS'' (CHR '' '') = GetTokens (environ w) ''CGO_CFLAGS'' (CHR '' '')"
    "GetTokens ?env2 ''CGO_LDFLAGS'' (CHR '' '') = GetTokens (environ w) ''CGO_LDFLAGS'' (CHR '' '')"
    by (simp_all add: GetTokens_def workspaces_env_apply)
  have keep: "env k = env3 k" if "k \<in> {''CGO_ENABLED'', ''CGO_CFLAGS'', ''CGO_LDFLAGS''}" for k
  proof (cases "Arch platform = GOARCH w \<and> OS platform = GOOS w")
    case True
    with sw show ?thesis by (simp add: platformSwitch_def)
  next
    case False
    with sw os have "setArmEnv w env3 platform = Inr env"
      by (auto simp: platformSwitch_def split: if_splits)
    with setArmEnv_apply [OF root, of env3 platform] that show ?thesis
      by auto
  qed
  from setSyncbaseCgoEnv_Inr [OF cgo] old keep show ?thesis
    unfolding dir by simp
qed

theorem syncbase_cgo_environment_witness:
  "(\<exists>env. VanadiumEnvironment example_world amd64_linux = Inr env \<and>
      Stat example_world ''/v23/third_party/cout/leveldb'' = StatOK \<and>
      env ''CGO_ENABLED'' = Some ''1'' \<and>
      env ''CGO_CFLAGS'' = Some ''-I/v23/third_party/cout/leveldb/include'' \<and>
      env ''CGO_LDFLAGS'' = Some
        ''-L/v23/third_party/cout/leveldb/lib -Wl,-rpath /v23/third_party/cout/leveldb/lib'') \<and>
   (\<exists>env. VanadiumEnvironment world_darwin_host amd64_darwin = Inr env \<and>
      env ''CGO_ENABLED'' = Some ''1'' \<and>
      env ''CGO_CFLAGS'' = Some ''-I/v23/third_party/cout/leveldb/include'' \<and>
      env ''CGO_LDFLAGS'' = Some ''-L/v23/third_party/cout/leveldb/lib'') \<and>
   (\<exists>env. VanadiumEnvironment world_no_leveldb amd64_linux = Inr env \<and>
      Stat world_no_leveldb ''/v23/third_party/cout/leveldb'' = StatNotExist \<and>
      env ''CGO_ENABLED'' = Some ''1'' \<and>
      env ''CGO_CFLAGS'' = Some [] \<and> env ''CGO_LDFLAGS'' = Some [])"
proof -
  have unset: "environ example_world ''CGO_CFLAGS'' = None"
    "environ example_world ''CGO_LDFLAGS'' = None"
    "environ world_darwin_host = environ example_world"
    "environ world_no_leveldb = environ example_world"
    by (simp_all add: example_world_def world_darwin_host_def world_no_leveldb_def)
  have os: "OS amd64_linux = ''linux''" "OS amd64_darwin = ''darwin''"
    by (simp_all add: amd64_linux_def amd64_darwin_def)
  obtain env1 where ok1: "VanadiumEnvironment example_world amd64_linux = Inr env1"
    using example_host_ok by blast
  obtain env2 where ok2: "VanadiumEnvironment world_darwin_host amd64_darwin = Inr env2"
    using example_darwin_ok by blast
  obtain env3 where ok3: "VanadiumEnvironment world_no_leveldb amd64_linux = Inr env3"
    using example_no_leveldb_ok by blast
  from syncbase_cgo_environment [OF _ example_V23Root ok1 refl]
    syncbase_cgo_environment [OF _ example_V23Root_variants(3) ok2 refl]
    syncbase_cgo_environment [OF _ example_V23Root_variants(1) ok3 refl]
    ok1 ok2 ok3 example_Stat
  show ?thesis
    by (simp add: os unset GetTokens_def example_paths)
qed

text \<open>
  Claim C5. When \<^verbatim>\<open>VanadiumEnvironment\<close> returns a snapshot, its \<^verbatim>\<open>GOPATH\<close> is the token
  list of the \<^verbatim>\<open>GOPATH\<close> of the process followed by the root joined with each Go
  workspace of the configuration, in the order of the configuration, joined by
  colons; its \<^verbatim>\<open>VDLPATH\<close> is the same with the VDL workspaces.
\<close>

theorem workspaces_appended:
  assumes root: "V23Root w = Inr root"
    and config: "LoadConfig w = Inr config"
    and ok: "VanadiumEnvironment w platform = Inr env"
  shows "env ''GOPATH'' = Some (Join (CHR '':'')
           (GetTokens (environ w) ''GOPATH'' (CHR '':'') @
            map (\<lambda>workspace. filepath_Join [root, workspace]) (GoWorkspaces config))) \<and>
         env ''VDLPATH'' = Some (Join (CHR '':'')
           (GetTokens (environ w) ''VDLPATH'' (CHR '':'') @
            map (\<lambda>workspace. filepath_Join [root, workspace]) (VDLWorkspaces config)))"
proof -
  let ?env2 = "setVdlPath (setGoPath (environ w) root config) root config"
  have "env k = ?env2 k" if k: "k \<in> {''GOPATH'', ''VDLPATH''}" for k
  proof (cases "OS platform = ''darwin'' \<or> OS platform = ''linux''")
    case True
    with VanadiumEnvironment_unfold [OF root config, of platform] ok
    obtain env3 where cgo: "setSyncbaseCgoEnv w ?env2 root (OS platform) = Inr env3"
      and sw: "platformSwitch w env3 platform = Inr env"
      by (auto split: sum.splits)
    from k have "env k = env3 k"
      by (intro platformSwitch_frame [OF sw]) auto
    moreover from k have "env3 k = ?env2 k"
      by (intro setSyncbaseCgoEnv_Inr(3) [OF cgo]) auto
    ultimately show ?thesis by simp
  next
    case False
    with VanadiumEnvironment_unfold [OF root config, of platform] ok
    have sw: "platformSwitch w ?env2 platform = Inr env"
      by simp
    from k show ?thesis
      by (intro platformSwitch_frame [OF sw]) auto
  qed
  then show ?thesis
    by (simp add: workspaces_env_apply)
qed

theorem workspaces_appended_witness:
  "\<exists>env. VanadiumEnvironment example_world arm_android_v7 = Inr env \<and>
         environ example_world ''GOPATH'' = Some ''/home/go'' \<and>
         environ example_world ''VDLPATH'' = None \<and>
         env ''GOPATH'' = Some ''/home/go:/v23/release/go'' \<and>
         env ''VDLPATH'' = Some ''/v23/release/vdl''"
proof -
  obtain env where ok: "VanadiumEnvironment example_world arm_android_v7 = Inr env"
    using example_android_ok by blast
  from workspaces_appended [OF example_V23Root example_LoadConfig ok] ok show ?thesis
    by (simp add: example_world_def example_config_def GetTokens_def example_tokens example_paths)
qed

text \<open>
  Claim C10. Let the architecture and the operating system of the platform be those of
  the running machine, and let \<^verbatim>\<open>VanadiumEnvironment\<close> return a snapshot. Then \<^verbatim>\<open>GOOS\<close>,
  \<^verbatim>\<open>GOARCH\<close>, \<^verbatim>\<open>GOARM\<close> and \<^verbatim>\<open>PATH\<close> are as in the environment of the process; so is
  every variable other than \<^verbatim>\<open>GOPATH\<close>, \<^verbatim>\<open>VDLPATH\<close>, \<^verbatim>\<open>CGO_ENABLED\<close>, \<^verbatim>\<open>CGO_CFLAGS\<close> and
  \<^verbatim>\<open>CGO_LDFLAGS\<close>, and off \<^verbatim>\<open>darwin\<close> and \<^verbatim>\<open>linux\<close> every variable other than \<^verbatim>\<open>GOPATH\<close>
  and \<^verbatim>\<open>VDLPATH\<close>. The platform may also be one of the cross-compilation pairs: the host
  case is tested first.
\<close>

theorem host_environment_frame:
  assumes arch: "Arch platform = GOARCH w" and os: "OS platform = GOOS w"
    and ok: "VanadiumEnvironment w platform = Inr env"
  shows "env ''GOOS'' = environ w ''GOOS'' \<and> env ''GOARCH'' = environ w ''GOARCH'' \<and>
         env ''GOARM'' = environ w ''GOARM'' \<and> env ''PATH'' = environ w ''PATH'' \<and>
         (k \<notin> {''GOPATH'', ''VDLPATH'', ''CGO_ENABLED'', ''CGO_CFLAGS'', ''CGO_LDFLAGS''} \<longrightarrow>
            env k = environ w k) \<and>
         (OS platform \<noteq> ''darwin'' \<and> OS platform \<noteq> ''linux'' \<and>
          k \<notin> {''GOPATH'', ''VDLPATH''} \<longrightarrow> env k = environ w k)"
proof -
  from ok obtain root config where root: "V23Root w = Inr root"
    and config: "LoadConfig w = Inr config"
    by (rule VanadiumEnvironment_Inr_steps)
  let ?env2 = "setVdlPath (setGoPath (environ w) root config) root config"
  note sw = platformSwitch_host [OF arch os]
  have frame: "env k = environ w k"
    if "k \<notin> {''GOPATH'', ''VDLPATH'', ''CGO_ENABLED'', ''CGO_CFLAGS'', ''CGO_LDFLAGS''}" for k
  proof (cases "OS platform = ''darwin'' \<or> OS platform = ''linux''")
    case True
    with VanadiumEnvironment_unfold [OF root config, of platform] ok
    have cgo: "setSyncbaseCgoEnv w ?env2 root (OS platform) = Inr env"
      by (auto simp: sw split: sum.splits)
    from that have "env k = ?env2 k"
      by (intro setSyncbaseCgoEnv_Inr(3) [OF cgo]) auto
    with that show ?thesis by (simp add: workspaces_env_apply)
  next
    case False
    with VanadiumEnvironment_unfold [OF root config, of platform] ok
    have "env = ?env2"
      by (simp add: sw)
    with that show ?thesis by (simp add: workspaces_env_apply)
  qed
  have other: "env k = environ w k"
    if "OS platform \<noteq> ''darwin'' \<and> OS platform \<noteq> ''linux''"
      and "k \<notin> {''GOPATH'', ''VDLPATH''}" for k
  proof -
    from that(1) VanadiumEnvironment_unfold [OF root config, of platform] ok
    have "env = ?env2"
      by (simp add: sw)
    with that(2) show ?thesis by (simp add: workspaces_env_apply)
  qed
  from frame [of "''GOOS''"] frame [of "''GOARCH''"] frame [of "''GOARM''"] frame [of "''PATH''"]
    frame [of k] other [of k]
  show ?thesis by simp
qed

theorem host_environment_frame_witness:
  "\<exists>env. VanadiumEnvironment world_arm_host arm_linux_v7 = Inr env \<and>
         Arch arm_linux_v7 = GOARCH world_arm_host \<and> OS arm_linux_v7 = GOOS world_arm_host \<and>
         env ''GOOS'' = None \<and> env ''GOARCH'' = None \<and> env ''GOARM'' = None \<and>
         env ''PATH'' = Some ''/usr/bin:/bin'' \<and>
         env ''V23_ROOT'' = Some ''/v23''"
proof -
  obtain env where ok: "VanadiumEnvironment world_arm_host arm_linux_v7 = Inr env"
    using example_arm_host_ok by blast
  have host: "Arch arm_linux_v7 = GOARCH world_arm_host" "OS arm_linux_v7 = GOOS world_arm_host"
    by (simp_all add: arm_linux_v7_def example_hosts)
  from host_environment_frame [OF host ok, of "''V23_ROOT''"] ok host show ?thesis
    by (simp add: world_arm_host_def example_world_def)
qed

section \<open>Root lookup\<close>

text \<open>
  Claim C6, as the code has it. \<^verbatim>\<open>V23Root\<close> fails with the error "\<^verbatim>\<open>V23_ROOT\<close> is not
  set", a \<open>ConfigError\<close>, when the variable \<^verbatim>\<open>V23_ROOT\<close> is not set or is empty. When the
  variable has a value whose symbolic links cannot be resolved, it fails with the error
  of \<^verbatim>\<open>EvalSymlinks\<close>, an \<open>IOError\<close>. Otherwise it returns the resolved path. Every error
  of \<^verbatim>\<open>V23Root\<close> is the error of \<^verbatim>\<open>VanadiumEnvironment\<close>, \<^verbatim>\<open>LocalManifestFile\<close>,
  \<^verbatim>\<open>LocalSnapshotDir\<close>, \<^verbatim>\<open>ManifestDir\<close>, \<^verbatim>\<open>ManifestFile\<close> and \<^verbatim>\<open>RemoteSnapshotDir\<close>, and of
  \<^verbatim>\<open>ResolveManifestPath\<close> for a name that is empty or relative. For an absolute name
  \<^verbatim>\<open>ResolveManifestPath\<close> does not look the root up and returns the name. \<^verbatim>\<open>DataDirPath\<close>,
  \<^verbatim>\<open>LoadConfig\<close> and \<^verbatim>\<open>BuildCopRotationPath\<close> do not look the root up themselves: they
  return the error of \<^verbatim>\<open>readManifest\<close> when it fails, and with the result of
  \<^verbatim>\<open>readManifest\<close> given, \<^verbatim>\<open>DataDirPath\<close> and \<^verbatim>\<open>BuildCopRotationPath\<close> return the same
  whatever the environment of the process holds.
\<close>

theorem V23Root_errors:
  "(environ w ''V23_ROOT'' = None \<or> environ w ''V23_ROOT'' = Some [] \<longrightarrow>
      V23Root w = Inl (NotSetErr ''V23_ROOT'') \<and>
      class_of (NotSetErr ''V23_ROOT'') = ConfigError) \<and>
   (environ w ''V23_ROOT'' = Some root \<and> root \<noteq> [] \<and> EvalSymlinks w root = None \<longrightarrow>
      V23Root w = Inl (EvalSymlinksErr root) \<and>
      class_of (EvalSymlinksErr root) = IOError) \<and>
   (environ w ''V23_ROOT'' = Some root \<and> root \<noteq> [] \<and> EvalSymlinks w root = Some result \<longrightarrow>
      V23Root w = Inr result) \<and>
   (V23Root w = Inl err \<longrightarrow>
      VanadiumEnvironment w platform = Inl err \<and>
      LocalManifestFile w = Inl err \<and>
      LocalSnapshotDir w = Inl err \<and>
      ManifestDir w = Inl err \<and>
      ManifestFile w name = Inl err \<and>
      RemoteSnapshotDir w = Inl err \<and>
      (\<not> filepath_IsAbs name \<longrightarrow> ResolveManifestPath w name = Inl err)) \<and>
   (filepath_IsAbs name \<longrightarrow> ResolveManifestPath w name = Inr name) \<and>
   (readManifest w = Inl err \<longrightarrow>
      DataDirPath w toolName = Inl err \<and>
      LoadConfig w = Inl err \<and>
      BuildCopRotationPath w = Inl err) \<and>
   DataDirPath (w\<lparr>environ := e\<rparr>) toolName = DataDirPath w toolName \<and>
   BuildCopRotationPath (w\<lparr>environ := e\<rparr>) = BuildCopRotationPath w"
proof -
  have unset: "V23Root w = Inl (NotSetErr ''V23_ROOT'')"
    if "environ w ''V23_ROOT'' = None \<or> environ w ''V23_ROOT'' = Some []"
    using that by (auto simp: V23Root_def Getenv_def rootEnv_def)
  have resolved: "V23Root w =
      (case EvalSymlinks w root of
         None \<Rightarrow> Inl (EvalSymlinksErr root)
       | Some result \<Rightarrow> Inr result)"
    if "environ w ''V23_ROOT'' = Some root" and "root \<noteq> []"
    using that by (simp add: V23Root_def Getenv_def rootEnv_def)
  have propagated: "VanadiumEnvironment w platform = Inl err \<and>
      LocalManifestFile w = Inl err \<and> LocalSnapshotDir w = Inl err \<and>
      ManifestDir w = Inl err \<and> ManifestFile w name = Inl err \<and>
      RemoteSnapshotDir w = Inl err"
    if "V23Root w = Inl err"
    using that
    by (simp add: VanadiumEnvironment_def LocalManifestFile_def LocalSnapshotDir_def
          ManifestDir_def ManifestFile_def RemoteSnapshotDir_def Let_def)
  have relative: "ResolveManifestPath w name = Inl err"
    if "V23Root w = Inl err" and "\<not> filepath_IsAbs name"
  proof (cases "name = []")
    case True
    with that(1) show ?thesis
      by (simp add: ResolveManifestPath_empty LocalManifestFile_def)
  next
    case False
    with that show ?thesis
      by (simp add: ResolveManifestPath_named ManifestFile_def ManifestDir_def)
  qed
  have absolute: "ResolveManifestPath w name = Inr name" if "filepath_IsAbs name"
    using that by (simp add: ResolveManifestPath_named filepath_IsAbs_nonempty)
  have manifest: "DataDirPath w toolName = Inl err \<and> LoadConfig w = Inl err \<and>
      BuildCopRotationPath w = Inl err"
    if "readManifest w = Inl err"
    using that by (simp add: DataDirPath_def LoadConfig_def BuildCopRotationPath_def)
  have independent: "DataDirPath (w\<lparr>environ := e\<rparr>) n = DataDirPath w n" for n
    by (simp add: DataDirPath_def)
  then have independent': "BuildCopRotationPath (w\<lparr>environ := e\<rparr>) = BuildCopRotationPath w"
    by (simp add: BuildCopRotationPath_def)
  from unset resolved propagated relative absolute manifest independent independent'
  show ?thesis
    by auto
qed

theorem V23Root_errors_witness:
  "environ world_root_unset ''V23_ROOT'' = None \<and>
   V23Root world_root_unset = Inl (NotSetErr ''V23_ROOT'') \<and>
   VanadiumEnvironment world_root_unset amd64_linux = Inl (NotSetErr ''V23_ROOT'') \<and>
   ManifestFile world_root_unset ''default'' = Inl (NotSetErr ''V23_ROOT'') \<and>
   ResolveManifestPath world_root_unset ''default'' = Inl (NotSetErr ''V23_ROOT'') \<and>
   ResolveManifestPath world_root_unset ''/tmp/manifest'' = Inr ''/tmp/manifest'' \<and>
   environ world_root_dangling ''V23_ROOT'' = Some ''/v23'' \<and>
   EvalSymlinks world_root_dangling ''/v23'' = None \<and>
   V23Root world_root_dangling = Inl (EvalSymlinksErr ''/v23'') \<and>
   EvalSymlinks example_world ''/v23'' = Some ''/v23'' \<and>
   V23Root example_world = Inr ''/v23'' \<and>
   readManifest world_manifest_unreadable = Inl (ReadFileErr ''/v23/.manifest/v2/default'') \<and>
   BuildCopRotationPath world_manifest_unreadable =
     Inl (ReadFileErr ''/v23/.manifest/v2/default'')"
proof -
  have unset: "environ world_root_unset ''V23_ROOT'' = None \<and>
      V23Root world_root_unset = Inl (NotSetErr ''V23_ROOT'') \<and>
      VanadiumEnvironment world_root_unset amd64_linux = Inl (NotSetErr ''V23_ROOT'') \<and>
      ManifestFile world_root_unset ''default'' = Inl (NotSetErr ''V23_ROOT'') \<and>
      ResolveManifestPath world_root_unset ''default'' = Inl (NotSetErr ''V23_ROOT'')"
    using V23Root_errors [where w = world_root_unset and platform = amd64_linux
        and name = "''default''" and err = "NotSetErr ''V23_ROOT''"]
    by (simp add: world_root_unset_def example_world_def)
  have absolute: "ResolveManifestPath world_root_unset ''/tmp/manifest'' = Inr ''/tmp/manifest''"
    using V23Root_errors [where w = world_root_unset and name = "''/tmp/manifest''"]
    by simp
  have dangling: "environ world_root_dangling ''V23_ROOT'' = Some ''/v23'' \<and>
      EvalSymlinks world_root_dangling ''/v23'' = None \<and>
      V23Root world_root_dangling = Inl (EvalSymlinksErr ''/v23'')"
    using V23Root_errors [where w = world_root_dangling and root = "''/v23''"]
    by (simp add: world_root_dangling_def example_world_def)
  have resolved: "EvalSymlinks example_world ''/v23'' = Some ''/v23'' \<and>
      V23Root example_world = Inr ''/v23''"
    using V23Root_errors [where w = example_world and root = "''/v23''"
        and result = "''/v23''"]
    by (simp add: example_world_def)
  have manifest:
    "readManifest world_manifest_unreadable = Inl (ReadFileErr ''/v23/.manifest/v2/default'') \<and>
     BuildCopRotationPath world_manifest_unreadable =
       Inl (ReadFileErr ''/v23/.manifest/v2/default'')"
    using V23Root_errors [where w = world_manifest_unreadable
        and err = "ReadFileErr ''/v23/.manifest/v2/default''"]
    by (simp add: world_manifest_unreadable_def)
  from unset absolute dangling resolved manifest show ?thesis
    by simp
qed

text \<open>
  Claim C6 as it is stated fails for \<^verbatim>\<open>ResolveManifestPath\<close> with an absolute name: with
  \<^verbatim>\<open>V23_ROOT\<close> not set it returns the name and no error.
\<close>

theorem V23Root_helpers_counterexample:
  "environ world_root_unset ''V23_ROOT'' = None \<and>
   V23Root world_root_unset = Inl (NotSetErr ''V23_ROOT'') \<and>
   ResolveManifestPath world_root_unset ''/tmp/manifest'' = Inr ''/tmp/manifest''"
proof -
  have "environ world_root_unset ''V23_ROOT'' = None"
    by (simp add: world_root_unset_def example_world_def)
  then show ?thesis
    by (simp add: example_failures ResolveManifestPath_named)
qed

section \<open>Manifest name resolution\<close>

text \<open>
  Claim C7. \<^verbatim>\<open>ResolveManifestPath\<close> returns an absolute name as it is, so resolving
  the result again gives the same path. With the root \<open>root\<close>, a relative name that is
  not empty gives the name joined with the manifest directory \<^verbatim>\<open><root>/.manifest/v2\<close>;
  the empty name gives the local manifest \<^verbatim>\<open><root>/.local_manifest\<close> when that file
  exists, and the result for the name \<^verbatim>\<open>default\<close> when it does not exist, which is
  \<^verbatim>\<open><root>/.manifest/v2/default\<close>. The call for \<^verbatim>\<open>default\<close> is \<^verbatim>\<open>ManifestFile\<close> and
  recurses no further. The function is total: its definition above comes with the
  termination proof.
\<close>

theorem ResolveManifestPath_cases:
  "(filepath_IsAbs name \<longrightarrow>
      ResolveManifestPath w name = Inr name \<and>
      (ResolveManifestPath w name = Inr path \<longrightarrow> ResolveManifestPath w path = Inr path)) \<and>
   ResolveManifestPath w ''default'' = ManifestFile w ''default'' \<and>
   (V23Root w = Inr root \<longrightarrow>
      (name \<noteq> [] \<and> \<not> filepath_IsAbs name \<longrightarrow>
         ResolveManifestPath w name =
           Inr (filepath_Join [filepath_Join [root, ''.manifest'', ''v2''], name])) \<and>
      (Stat w (filepath_Join [root, ''.local_manifest'']) = StatOK \<longrightarrow>
         ResolveManifestPath w [] = Inr (filepath_Join [root, ''.local_manifest''])) \<and>
      (Stat w (filepath_Join [root, ''.local_manifest'']) = StatNotExist \<longrightarrow>
         ResolveManifestPath w [] = ResolveManifestPath w ''default'' \<and>
         ResolveManifestPath w [] =
           Inr (filepath_Join [filepath_Join [root, ''.manifest'', ''v2''], ''default''])))"
proof -
  have abs: "ResolveManifestPath w n = Inr n" if "filepath_IsAbs n" for n
    using that by (simp add: ResolveManifestPath_named filepath_IsAbs_nonempty)
  have twice: "ResolveManifestPath w path = Inr path"
    if "filepath_IsAbs name" and "ResolveManifestPath w name = Inr path"
    using that abs [of name] abs [of path] by simp
  have once: "ResolveManifestPath w ''default'' = ManifestFile w ''default''"
    by (simp add: ResolveManifestPath_named)
  have rel: "ResolveManifestPath w n =
      Inr (filepath_Join [filepath_Join [root, ''.manifest'', ''v2''], n])"
    if "V23Root w = Inr root" and "n \<noteq> []" and "\<not> filepath_IsAbs n" for n
    using that by (simp add: ResolveManifestPath_named ManifestFile_def ManifestDir_def)
  have default: "ResolveManifestPath w ''default'' =
      Inr (filepath_Join [filepath_Join [root, ''.manifest'', ''v2''], ''default''])"
    if "V23Root w = Inr root"
    using that by (intro rel) simp_all
  have local: "ResolveManifestPath w [] = Inr (filepath_Join [root, ''.local_manifest''])"
    if "V23Root w = Inr root" and "Stat w (filepath_Join [root, ''.local_manifest'']) = StatOK"
    using that by (simp add: ResolveManifestPath_empty LocalManifestFile_def)
  have fallback: "ResolveManifestPath w [] = ResolveManifestPath w ''default''"
    if "V23Root w = Inr root"
      and "Stat w (filepath_Join [root, ''.local_manifest'']) = StatNotExist"
    using that by (simp add: ResolveManifestPath_empty LocalManifestFile_def)
  from abs [of name] twice once rel [of name] default local fallback show ?thesis
    by presburger
qed

theorem ResolveManifestPath_cases_witness:
  "filepath_IsAbs ''/tmp/manifest'' \<and>
   ResolveManifestPath example_world ''/tmp/manifest'' = Inr ''/tmp/manifest'' \<and>
   V23Root example_world = Inr ''/v23'' \<and>
   ResolveManifestPath example_world ''default'' = Inr ''/v23/.manifest/v2/default'' \<and>
   Stat example_world ''/v23/.local_manifest'' = StatNotExist \<and>
   ResolveManifestPath example_world [] = Inr ''/v23/.manifest/v2/default'' \<and>
   V23Root world_local_manifest = Inr ''/v23'' \<and>
   Stat world_local_manifest ''/v23/.local_manifest'' = StatOK \<and>
   ResolveManifestPath world_local_manifest [] = Inr ''/v23/.local_manifest''"
proof -
  have root: "V23Root world_local_manifest = Inr ''/v23''"
    by (simp add: world_local_manifest_def example_world_def V23Root_def Getenv_def rootEnv_def)
  have absent: "Stat example_world ''/v23/.local_manifest'' = StatNotExist"
    by (simp add: example_world_def)
  have present: "Stat world_local_manifest ''/v23/.local_manifest'' = StatOK"
    by (simp add: world_local_manifest_def)
  from ResolveManifestPath_cases [where w = example_world and name = "''/tmp/manifest''"
      and path = "''/tmp/manifest''" and root = "''/v23''"]
    ResolveManifestPath_cases [where w = example_world and name = "''default''"
      and root = "''/v23''"]
    ResolveManifestPath_cases [where w = world_local_manifest and name = "''default''"
      and root = "''/v23''"]
    example_V23Root root absent present
  show ?thesis
    by (simp add: example_paths)
qed

section \<open>Data directory and configuration\<close>

text \<open>
  Claim C8. Let the manifest be read, with the projects and the tools it names, and let
  \<open>toolName\<close> be the name of the running tool, or \<^verbatim>\<open>v23\<close> when that is empty. When the
  manifest has no tool of that name, or no project of the name the tool gives,
  \<^verbatim>\<open>DataDirPath\<close> and \<^verbatim>\<open>LoadConfig\<close> fail with a \<open>NotFoundError\<close>. Otherwise the data
  directory is the path of the project joined with the data directory of the tool, and
  \<^verbatim>\<open>LoadConfig\<close> reads \<^verbatim>\<open>conf.json\<close> in it: it fails with an \<open>IOError\<close> when the file
  cannot be read, with a \<open>ParseError\<close> when the content does not decode, and returns
  the decoded configuration otherwise.
\<close>

theorem LoadConfig_cases:
  assumes manifest: "readManifest w = Inr (projects, tools)"
    and name: "toolName = (if tool_Name w = [] then ''v23'' else tool_Name w)"
    and dataDir: "dataDir = filepath_Join [Path project, Data tool]"
    and configPath: "configPath = filepath_Join [dataDir, ''conf.json'']"
  shows "(tools toolName = None \<longrightarrow>
            DataDirPath w (tool_Name w) = Inl (ToolNotFoundErr []) \<and>
            LoadConfig w = Inl (ToolNotFoundErr []) \<and>
            class_of (ToolNotFoundErr []) = NotFoundError) \<and>
         (tools toolName = Some tool \<and> projects (Project tool) = None \<longrightarrow>
            DataDirPath w (tool_Name w) = Inl (ProjectNotFoundErr (Project tool)) \<and>
            LoadConfig w = Inl (ProjectNotFoundErr (Project tool)) \<and>
            class_of (ProjectNotFoundErr (Project tool)) = NotFoundError) \<and>
         (tools toolName = Some tool \<and> projects (Project tool) = Some project \<longrightarrow>
            DataDirPath w (tool_Name w) = Inr dataDir \<and>
            (ReadFile w configPath = None \<longrightarrow>
               LoadConfig w = Inl (ReadFileErr configPath) \<and>
               class_of (ReadFileErr configPath) = IOError) \<and>
            (ReadFile w configPath = Some configBytes \<and> Unmarshal w configBytes = None \<longrightarrow>
               LoadConfig w = Inl (UnmarshalErr configBytes) \<and>
               class_of (UnmarshalErr configBytes) = ParseError) \<and>
            (ReadFile w configPath = Some configBytes \<and>
             Unmarshal w configBytes = Some config \<longrightarrow>
               LoadConfig w = Inr config))"
  using assms
  by (auto simp: LoadConfig_def DataDirPath_def Let_def zero_Tool_def)

theorem LoadConfig_cases_witness:
  "LoadConfig world_no_tool = Inl (ToolNotFoundErr []) \<and>
   LoadConfig world_no_project = Inl (ProjectNotFoundErr ''devtools'') \<and>
   DataDirPath example_world (tool_Name example_world) = Inr ''/v23/devtools/data'' \<and>
   LoadConfig world_config_missing = Inl (ReadFileErr ''/v23/devtools/data/conf.json'') \<and>
   LoadConfig world_config_malformed = Inl (UnmarshalErr ''{'') \<and>
   LoadConfig example_world = Inr example_config"
proof -
  let ?tool = "\<lparr>Name = ''v23'', Data = ''data'', Project = ''devtools''\<rparr>"
  let ?project = "\<lparr>Path = ''/v23/devtools''\<rparr>"
  let ?projects = "[''devtools'' \<mapsto> ?project]"
  let ?tools = "[''v23'' \<mapsto> ?tool]"
  have no_tool: "LoadConfig world_no_tool = Inl (ToolNotFoundErr [])"
    using LoadConfig_cases [where w = world_no_tool and projects = Map.empty
        and tools = Map.empty, OF _ refl refl refl]
    by (simp add: world_no_tool_def example_world_def)
  have no_project: "LoadConfig world_no_project = Inl (ProjectNotFoundErr ''devtools'')"
    using LoadConfig_cases [where w = world_no_project and projects = Map.empty
        and tools = ?tools and tool = ?tool, OF _ refl refl refl]
    by (simp add: world_no_project_def example_world_def)
  have found: "DataDirPath example_world (tool_Name example_world) = Inr ''/v23/devtools/data''"
    and loaded: "LoadConfig example_world = Inr example_config"
    using LoadConfig_cases [where w = example_world and projects = ?projects
        and tools = ?tools and tool = ?tool and project = ?project
        and configBytes = "''{}''" and config = example_config, OF _ refl refl refl]
    by (simp_all add: example_world_def example_paths)
  have missing:
    "LoadConfig world_config_missing = Inl (ReadFileErr ''/v23/devtools/data/conf.json'')"
    using LoadConfig_cases [where w = world_config_missing and projects = ?projects
        and tools = ?tools and tool = ?tool and project = ?project, OF _ refl refl refl]
    by (simp add: world_config_missing_def example_world_def example_paths)
  have malformed: "LoadConfig world_config_malformed = Inl (UnmarshalErr ''{'')"
    using LoadConfig_cases [where w = world_config_malformed and projects = ?projects
        and tools = ?tools and tool = ?tool and project = ?project
        and configBytes = "''{''", OF _ refl refl refl]
    by (simp add: world_config_malformed_def example_world_def example_paths)
  from no_tool no_project found missing malformed loaded show ?thesis
    by simp
qed

text \<open>
  Claim C9. \<^verbatim>\<open>DataDirPath\<close> with the empty tool name is \<^verbatim>\<open>DataDirPath\<close> with the tool
  name \<^verbatim>\<open>v23\<close>, in every world; when the manifest has no tool \<^verbatim>\<open>v23\<close>, the call with the
  empty name fails with a \<open>NotFoundError\<close>.
\<close>

theorem DataDirPath_default_tool:
  "DataDirPath w [] = DataDirPath w ''v23'' \<and>
   (readManifest w = Inr (projects, tools) \<and> tools ''v23'' = None \<longrightarrow>
      DataDirPath w [] = Inl (ToolNotFoundErr []) \<and>
      class_of (ToolNotFoundErr []) = NotFoundError)"
  by (auto simp: DataDirPath_def Let_def zero_Tool_def)

theorem DataDirPath_default_tool_witness:
  "DataDirPath example_world [] = Inr ''/v23/devtools/data'' \<and>
   readManifest world_no_tool = Inr (Map.empty, Map.empty) \<and>
   DataDirPath world_no_tool [] = Inl (ToolNotFoundErr [])"
proof -
  have manifest: "readManifest world_no_tool = Inr (Map.empty, Map.empty)"
    by (simp add: world_no_tool_def)
  have found: "DataDirPath example_world [] = Inr ''/v23/devtools/data''"
    using DataDirPath_default_tool [where w = example_world, THEN conjunct1]
      example_DataDirPath
    by simp
  have absent: "DataDirPath world_no_tool [] = Inl (ToolNotFoundErr [])"
    using DataDirPath_default_tool [where w = world_no_tool and projects = Map.empty
        and tools = Map.empty, THEN conjunct2] manifest
    by simp
  from manifest found absent show ?thesis
    by simp
qed

end
